theory Spec2Isabelle
  imports Complex_Main "HOL-Library.Log_Nat" "HOL-Library.List_Lexorder"
begin

section \<open>Python values used by the lesson generator\<close>

text \<open>
  The embedding follows \<^verbatim>\<open>lessons/services/openai_service.py\<close>.
  A Python \<^verbatim>\<open>str\<close> is a sequence of Unicode code points, so it is modelled as a list
  of naturals; \<open>py\<close> embeds an ASCII literal of the source.
\<close>

type_synonym pystr = "nat list"

definition py :: "string \<Rightarrow> pystr" where
  "py s = map of_char s"

text \<open>
  \<^verbatim>\<open>str.isspace\<close> for one code point: the characters that \<^verbatim>\<open>str.split()\<close> and
  \<^verbatim>\<open>str.strip()\<close> treat as whitespace (TAB..CR, FS..US, SPACE, NEL, NBSP, U+1680,
  U+2000..U+200A, U+2028, U+2029, U+202F, U+205F, U+3000).
\<close>

definition py_isspace :: "nat \<Rightarrow> bool" where
  "py_isspace c \<longleftrightarrow>
     (9 \<le> c \<and> c \<le> 13) \<or> (28 \<le> c \<and> c \<le> 32) \<or> c = 133 \<or> c = 160 \<or> c = 5760 \<or>
     (8192 \<le> c \<and> c \<le> 8202) \<or> c = 8232 \<or> c = 8233 \<or> c = 8239 \<or> c = 8287 \<or> c = 12288"

text \<open>\<^verbatim>\<open>s.strip()\<close>: leading and trailing whitespace removed.\<close>

definition py_strip :: "pystr \<Rightarrow> pystr" where
  "py_strip s = rev (dropWhile py_isspace (rev (dropWhile py_isspace s)))"

text \<open>
  \<^verbatim>\<open>s.split()\<close>: the maximal runs of non-whitespace characters, in order. \<open>split_ws cur s\<close>
  scans \<open>s\<close> with the word read so far in \<open>cur\<close>.
\<close>

fun split_ws :: "pystr \<Rightarrow> pystr \<Rightarrow> pystr list" where
  "split_ws cur [] = (if cur = [] then [] else [cur])"
| "split_ws cur (c # cs) =
     (if py_isspace c then (if cur = [] then split_ws [] cs else cur # split_ws [] cs)
      else split_ws (cur @ [c]) cs)"

definition py_split :: "pystr \<Rightarrow> pystr list" where
  "py_split s = split_ws [] s"

text \<open>
  \<^verbatim>\<open>s.split(sep)\<close> for a non-empty separator: cut at every occurrence of \<open>sep\<close>, found
  from the left without overlap; empty pieces are kept. (Python raises on an empty
  separator; the source only passes the two line feeds of a blank line.)
\<close>

function split_sep :: "pystr \<Rightarrow> pystr \<Rightarrow> pystr \<Rightarrow> pystr list" where
  "split_sep sep cur [] = [cur]"
| "split_sep sep cur (c # cs) =
     (if sep \<noteq> [] \<and> take (length sep) (c # cs) = sep
      then cur # split_sep sep [] (drop (length sep) (c # cs))
      else split_sep sep (cur @ [c]) cs)"
  by pat_completeness auto
termination
  by (relation "measure (\<lambda>(sep, cur, s). length s)") auto

definition py_split_on :: "pystr \<Rightarrow> pystr \<Rightarrow> pystr list" where
  "py_split_on sep s = split_sep sep [] s"

text \<open>
  The values \<^verbatim>\<open>json.loads\<close> can return. The numeric value of a float is never inspected
  by the code; it is kept as mantissa and binary exponent. A \<^verbatim>\<open>dict\<close> is an association
  list in insertion order, read with \<open>map_of\<close>.
\<close>

datatype pyval =
    PyNone
  | PyBool bool
  | PyInt int
  | PyFloat int int
  | PyStr pystr
  | PyList "pyval list"
  | PyDict "(pystr \<times> pyval) list"

type_synonym pydict = "(pystr \<times> pyval) list"

section \<open>Binary64 arithmetic of the minimum-length threshold\<close>

text \<open>
  The source computes \<^verbatim>\<open>int(min_words * 0.7)\<close> in IEEE binary64. A finite double is a pair
  \<open>(m, e)\<close> with value \<open>m * 2 ^ e\<close>. \<open>round53\<close> rounds an exact dyadic number to 53
  significant bits, ties to even (overflow and subnormals do not occur at the magnitudes
  used here). \<open>lit_0_7\<close> is the double that the literal \<^verbatim>\<open>0.7\<close> denotes.
\<close>

type_synonym binary64 = "int \<times> int"

definition round53 :: "int \<Rightarrow> int \<Rightarrow> binary64" where
  "round53 m e =
     (let s = bitlen \<bar>m\<bar> - 53 in
      if s \<le> 0 then (m, e)
      else
        let q = \<bar>m\<bar> div 2 ^ nat s;
            r = \<bar>m\<bar> mod 2 ^ nat s;
            h = 2 ^ nat (s - 1);
            q' = (if r < h then q else if h < r then q + 1 else if even q then q else q + 1)
        in (sgn m * q', e + s))"

definition float_of_int :: "int \<Rightarrow> binary64" where
  "float_of_int n = round53 n 0"

definition float_mul :: "binary64 \<Rightarrow> binary64 \<Rightarrow> binary64" where
  "float_mul a b = round53 (fst a * fst b) (snd a + snd b)"

definition lit_0_7 :: binary64 where
  "lit_0_7 = (6305039478318694, - 53)"

text \<open>\<^verbatim>\<open>int(x)\<close> for a float: truncation towards zero.\<close>

definition int_of_float :: "binary64 \<Rightarrow> int" where
  "int_of_float x =
     (if 0 \<le> snd x then fst x * 2 ^ nat (snd x)
      else sgn (fst x) * (\<bar>fst x\<bar> div 2 ^ nat (- snd x)))"

section \<open>Size parameters by duration\<close>

text \<open>
  Lines 67--88 of \<^verbatim>\<open>generate_lesson_content\<close>: the local variables that the
  \<^verbatim>\<open>if/elif/else\<close> on \<^verbatim>\<open>duration_minutes\<close> assigns.
\<close>

record size_params =
  paragraphs :: pystr
  min_words :: int
  max_tokens :: int
  activities_count :: pystr
  questions_count :: pystr
  lesson_type :: pystr

definition params_by_duration :: "int \<Rightarrow> size_params" where
  "params_by_duration duration_minutes =
     (if duration_minutes \<le> 30 then
        \<lparr>paragraphs = py ''4-5'', min_words = 400, max_tokens = 1600,
         activities_count = py ''5-7'', questions_count = py ''6-10'',
         lesson_type = py ''SHORT''\<rparr>
      else if duration_minutes \<le> 60 then
        \<lparr>paragraphs = py ''7-9'', min_words = 600, max_tokens = 2600,
         activities_count = py ''6-8'', questions_count = py ''8-12'',
         lesson_type = py ''MEDIUM''\<rparr>
      else
        \<lparr>paragraphs = py ''12-16'', min_words = 800, max_tokens = 4200,
         activities_count = py ''8-10'', questions_count = py ''10-15'',
         lesson_type = py ''LONG''\<rparr>)"

text \<open>The bound of line 164: \<^verbatim>\<open>int(min_words * 0.7)\<close>.\<close>

definition word_bound :: "int \<Rightarrow> int" where
  "word_bound min_words_v = int_of_float (float_mul (float_of_int min_words_v) lit_0_7)"

section \<open>Exceptions, provider responses and the process state\<close>

text \<open>
  The exceptions that can arise, one constructor per \<^verbatim>\<open>raise\<close> of the source and per
  built-in failure of an operation it performs. The message of a \<^verbatim>\<open>ValueError\<close> is kept
  as the constructor and the values the f-string formats. \<open>ApiError\<close> is any exception
  raised by the client library (transport, authentication, rate limit); the library's
  exceptions all derive from \<^verbatim>\<open>Exception\<close>. \<open>RetriesFailed\<close> is the final
  \<^verbatim>\<open>Exception(f"Failed to generate lesson content after retries: {last_error}")\<close>.
\<close>

datatype pyexc =
    NotConfigured
  | UnexpectedKeys "pystr list"
  | MustBeString pystr
  | MustBeStrList pystr
  | Truncated
  | EmptyResponse
  | ContentTooShort nat int int
  | JSONDecodeError
  | AttributeError
  | IndexError
  | KeyError pystr
  | ApiError pystr
  | RetriesFailed "pyexc option"

text \<open>
  A chat completion as the client library types it: a list of choices, each with a finish
  reason (read with \<^verbatim>\<open>getattr(..., None)\<close>) and a message whose content may be
  \<^verbatim>\<open>None\<close>.
\<close>

record choice =
  finish_reason :: "pystr option"
  message_content :: "pystr option"

record response =
  choices :: "choice list"

datatype api_outcome = Raises pyexc | Returns response

text \<open>
  What the prompt and the keyword arguments of \<^verbatim>\<open>client.chat.completions.create\<close> are
  built from. The prompt text is a function of these fields, so a provider that depends on
  the prompt is a function of the request.
\<close>

record request =
  req_topic :: pystr
  req_subject :: pystr
  req_grade_level :: pystr
  req_duration :: int
  req_params :: size_params
  req_model :: pystr

text \<open>
  What the process does that is visible outside: log records, calls of the provider,
  sleeps (\<open>Sleep a\<close> is \<^verbatim>\<open>time.sleep(0.6 * a)\<close>).
\<close>

datatype event =
    WarnNoApiKey
  | ErrorClientInit pyexc
  | ApiCall nat request
  | WarnParagraphs nat pystr
  | ErrorAttempt nat pyexc
  | Sleep nat

text \<open>
  The module global \<^verbatim>\<open>_client\<close>: \<^verbatim>\<open>None\<close> before the first use, \<^verbatim>\<open>False\<close> once
  initialisation failed, otherwise the client (identified by the key it was built with).
\<close>

datatype client_state = ClientNone | ClientFalse | Client pystr

record world =
  client :: client_state
  trace :: "event list"

text \<open>
  What the function reads from outside the program: the process environment, the
  constructor \<^verbatim>\<open>OpenAI(api_key=...)\<close> (\<open>Some e\<close> when it raises), the provider's answer
  to the call made in attempt \<open>a\<close>, and \<^verbatim>\<open>json.loads\<close> (\<open>None\<close> when it raises
  \<^verbatim>\<open>JSONDecodeError\<close>).
\<close>

record environ =
  getenv :: "pystr \<Rightarrow> pystr option"
  new_client :: "pystr \<Rightarrow> pyexc option"
  create :: "request \<Rightarrow> nat \<Rightarrow> api_outcome"
  loads :: "pystr \<Rightarrow> pyval option"

definition emit :: "event \<Rightarrow> world \<Rightarrow> world" where
  "emit ev w = w\<lparr>trace := trace w @ [ev]\<rparr>"

section \<open>The client singleton\<close>

definition get_openai_client :: "environ \<Rightarrow> world \<Rightarrow> pystr option \<times> world" where
  "get_openai_client env w =
     (let w' =
        (case client w of
           ClientNone \<Rightarrow>
             (case getenv env (py ''OPENAI_API_KEY'') of
                None \<Rightarrow> emit WarnNoApiKey (w\<lparr>client := ClientFalse\<rparr>)
              | Some api_key \<Rightarrow>
                  if api_key \<noteq> [] then
                    (case new_client env api_key of
                       None \<Rightarrow> w\<lparr>client := Client api_key\<rparr>
                     | Some e \<Rightarrow> emit (ErrorClientInit e) (w\<lparr>client := ClientFalse\<rparr>))
                  else emit WarnNoApiKey (w\<lparr>client := ClientFalse\<rparr>))
         | _ \<Rightarrow> w)
      in (case client w' of Client c \<Rightarrow> (Some c, w') | _ \<Rightarrow> (None, w')))"

section \<open>Validation of a parsed result\<close>

definition expected_keys :: "pystr set" where
  "expected_keys =
     {py ''description'', py ''content'', py ''activities'', py ''questions'', py ''summary''}"

fun is_str :: "pyval \<Rightarrow> bool" where
  "is_str (PyStr s) = True"
| "is_str v = False"

fun is_str_list :: "pyval \<Rightarrow> bool" where
  "is_str_list (PyList xs) = list_all is_str xs"
| "is_str_list v = False"

text \<open>\<^verbatim>\<open>result[k]\<close> on a dict.\<close>

definition getitem :: "pydict \<Rightarrow> pystr \<Rightarrow> pyexc + pyval" where
  "getitem d k = (case map_of d k of None \<Rightarrow> Inl (KeyError k) | Some v \<Rightarrow> Inr v)"

text \<open>Sequencing of steps that may raise.\<close>

definition and_then :: "'e + 'a \<Rightarrow> ('a \<Rightarrow> 'e + 'b) \<Rightarrow> 'e + 'b" where
  "and_then r f = (case r of Inl e \<Rightarrow> Inl e | Inr v \<Rightarrow> f v)"

text \<open>
  One line of the type checks: \<^verbatim>\<open>if not isinstance(result[k], str): raise ...\<close> and
  \<^verbatim>\<open>if not isinstance(result[k], list) or not all(isinstance(x, str) ...): raise ...\<close>.
\<close>

definition must_be_string :: "pydict \<Rightarrow> pystr \<Rightarrow> pyexc + unit" where
  "must_be_string d k =
     and_then (getitem d k) (\<lambda>v. if \<not> is_str v then Inl (MustBeString k) else Inr ())"

definition must_be_str_list :: "pydict \<Rightarrow> pystr \<Rightarrow> pyexc + unit" where
  "must_be_str_list d k =
     and_then (getitem d k) (\<lambda>v. if \<not> is_str_list v then Inl (MustBeStrList k) else Inr ())"

text \<open>
  \<^verbatim>\<open>_validate_result\<close>. On a value that is not a dict, \<^verbatim>\<open>result.keys()\<close> raises
  \<^verbatim>\<open>AttributeError\<close>. The list in \<open>UnexpectedKeys\<close> is
  \<^verbatim>\<open>sorted(set(result.keys()) - expected_keys)\<close>.
\<close>

fun validate_result :: "pyval \<Rightarrow> pyexc + unit" where
  "validate_result (PyDict d) =
     (if set (map fst d) \<noteq> expected_keys then
        Inl (UnexpectedKeys (sort (remdups (filter (\<lambda>k. k \<notin> expected_keys) (map fst d)))))
      else
        and_then (must_be_string d (py ''description'')) (\<lambda>_.
        and_then (must_be_string d (py ''content'')) (\<lambda>_.
        and_then (must_be_string d (py ''summary'')) (\<lambda>_.
        and_then (must_be_str_list d (py ''activities'')) (\<lambda>_.
        must_be_str_list d (py ''questions''))))))"
| "validate_result v = Inl AttributeError"

section \<open>One attempt and the retry loop\<close>

text \<open>
  Line 170: the number of pieces between blank lines that are not all whitespace.
\<close>

definition paragraph_count :: "pystr \<Rightarrow> nat" where
  "paragraph_count content_text =
     length (filter (\<lambda>p. py_strip p \<noteq> []) (py_split_on [10, 10] content_text))"

text \<open>Lines 176--182: the dict that is returned.\<close>

definition bundle_of :: "pydict \<Rightarrow> pyexc + pydict" where
  "bundle_of d =
     and_then (getitem d (py ''description'')) (\<lambda>v1.
     and_then (getitem d (py ''content'')) (\<lambda>v2.
     and_then (getitem d (py ''activities'')) (\<lambda>v3.
     and_then (getitem d (py ''questions'')) (\<lambda>v4.
     and_then (getitem d (py ''summary'')) (\<lambda>v5.
       Inr [(py ''description'', v1), (py ''content'', v2), (py ''activities'', v3),
            (py ''questions'', v4), (py ''summary'', v5)])))))"

text \<open>Line 148: \<^verbatim>\<open>(response.choices[0].message.content or "").strip()\<close>.\<close>

definition raw_text :: "choice \<Rightarrow> pystr" where
  "raw_text c = py_strip (case message_content c of None \<Rightarrow> [] | Some s \<Rightarrow> s)"

text \<open>
  Lines 147--182: what the body of the \<^verbatim>\<open>try\<close> does with the provider's response. The
  result is the exception raised, or the returned dict with the warnings logged on the
  way.
\<close>

definition check_response ::
  "(pystr \<Rightarrow> pyval option) \<Rightarrow> size_params \<Rightarrow> int \<Rightarrow> response \<Rightarrow> pyexc + (pydict \<times> event list)"
where
  "check_response json_loads p duration_minutes r =
     (case choices r of
        [] \<Rightarrow> Inl IndexError
      | c # _ \<Rightarrow>
          let raw = raw_text c in
          if finish_reason c = Some (py ''length'') then Inl Truncated
          else if raw = [] then Inl EmptyResponse
          else
            (case json_loads raw of
               None \<Rightarrow> Inl JSONDecodeError
             | Some result \<Rightarrow>
                 and_then (validate_result result) (\<lambda>_.
                   (case result of
                      PyDict d \<Rightarrow>
                        (case (case map_of d (py ''content'') of
                                 None \<Rightarrow> PyStr [] | Some v \<Rightarrow> v) of
                           PyStr content_text \<Rightarrow>
                             let word_count = length (py_split content_text) in
                             if int word_count < word_bound (min_words p) then
                               Inl (ContentTooShort word_count (min_words p) duration_minutes)
                             else
                               and_then (bundle_of d) (\<lambda>b.
                                 Inr (b,
                                   if paragraph_count content_text < 3
                                   then [WarnParagraphs (paragraph_count content_text)
                                           (paragraphs p)]
                                   else []))
                         | _ \<Rightarrow> Inl AttributeError)
                    | _ \<Rightarrow> Inl AttributeError))))"

text \<open>
  The body of the \<^verbatim>\<open>try\<close>: the call of the provider (lines 122--145) followed by the
  checks. \<open>attempt_outcome\<close> is the exception raised in attempt \<open>a\<close> or the value
  returned; \<open>attempt\<close> adds what the attempt leaves in the trace.
\<close>

definition attempt_outcome ::
  "environ \<Rightarrow> request \<Rightarrow> nat \<Rightarrow> pyexc + (pydict \<times> event list)"
where
  "attempt_outcome env req a =
     (case create env req a of
        Raises e \<Rightarrow> Inl e
      | Returns r \<Rightarrow> check_response (loads env) (req_params req) (req_duration req) r)"

definition attempt ::
  "environ \<Rightarrow> request \<Rightarrow> nat \<Rightarrow> world \<Rightarrow> (pyexc + pydict) \<times> world"
where
  "attempt env req a w =
     (let w1 = emit (ApiCall a req) w in
      case attempt_outcome env req a of
        Inl e \<Rightarrow> (Inl e, w1)
      | Inr (b, warnings) \<Rightarrow> (Inr b, w1\<lparr>trace := trace w1 @ warnings\<rparr>))"

text \<open>
  Lines 117--189: \<^verbatim>\<open>for attempt in range(1, 4)\<close> with its \<^verbatim>\<open>except Exception\<close>
  handler, and the final \<^verbatim>\<open>raise\<close> after the loop.
\<close>

fun attempts ::
  "environ \<Rightarrow> request \<Rightarrow> nat list \<Rightarrow> pyexc option \<Rightarrow> world \<Rightarrow> (pyexc + pydict) \<times> world"
where
  "attempts env req [] last_error w = (Inl (RetriesFailed last_error), w)"
| "attempts env req (a # rest) last_error w =
     (case attempt env req a w of
        (Inr b, w') \<Rightarrow> (Inr b, w')
      | (Inl e, w') \<Rightarrow>
          attempts env req rest (Some e) (emit (Sleep a) (emit (ErrorAttempt a e) w')))"

text \<open>
  Lines 67--115: the size parameters, the prompt's inputs and the model name
  (\<^verbatim>\<open>os.getenv("OPENAI_LESSON_MODEL", "gpt-4o")\<close>).
\<close>

definition request_of :: "environ \<Rightarrow> pystr \<Rightarrow> pystr \<Rightarrow> pystr \<Rightarrow> int \<Rightarrow> request" where
  "request_of env topic subject grade_level duration_minutes =
     \<lparr>req_topic = topic, req_subject = subject, req_grade_level = grade_level,
      req_duration = duration_minutes,
      req_params = params_by_duration duration_minutes,
      req_model = (case getenv env (py ''OPENAI_LESSON_MODEL'') of
                     None \<Rightarrow> py ''gpt-4o'' | Some m \<Rightarrow> m)\<rparr>"

definition generate_lesson_content ::
  "environ \<Rightarrow> pystr \<Rightarrow> pystr \<Rightarrow> pystr \<Rightarrow> int \<Rightarrow> world \<Rightarrow> (pyexc + pydict) \<times> world"
where
  "generate_lesson_content env topic subject grade_level duration_minutes w =
     (case get_openai_client env w of
        (None, w') \<Rightarrow> (Inl NotConfigured, w')
      | (Some c, w') \<Rightarrow>
          attempts env (request_of env topic subject grade_level duration_minutes)
            [1 ..< 4] None w')"

section \<open>Sample inputs\<close>

text \<open>
  Concrete inputs on which the properties below are evaluated: a lesson text of \<open>n\<close>
  words in one paragraph, a parsed result with the five fields, a provider that answers
  every call with the same completion, and a parser that maps the completion's text to a
  given value.
\<close>

definition words :: "nat \<Rightarrow> pystr" where
  "words n = concat (replicate n (py ''word ''))"

definition lesson_dict :: "pyval \<Rightarrow> pyval \<Rightarrow> pydict" where
  "lesson_dict content_v activities_v =
     [(py ''description'', PyStr (py ''How plants make food'')),
      (py ''content'', content_v),
      (py ''activities'', activities_v),
      (py ''questions'', PyList (map PyStr (replicate 9 (py ''Why are leaves green?'')))),
      (py ''summary'', PyStr (py ''Plants turn light into sugar.''))]"

definition lesson_value :: "nat \<Rightarrow> pyval" where
  "lesson_value n =
     PyDict (lesson_dict (PyStr (words n))
       (PyList (map PyStr (replicate 7 (py ''Draw a leaf'')))))"

definition with_notes :: pydict where
  "with_notes =
     lesson_dict (PyStr (words 650)) (PyList []) @ [(py ''notes'', PyStr (py ''extra''))]"

definition without_summary :: pydict where
  "without_summary = butlast (lesson_dict (PyStr (words 650)) (PyList []))"

definition sample_choice :: "pystr \<Rightarrow> choice" where
  "sample_choice reason =
     \<lparr>finish_reason = Some reason, message_content = Some (py '' {...} '')\<rparr>"

definition sample_response :: "pystr \<Rightarrow> response" where
  "sample_response reason = \<lparr>choices = [sample_choice reason]\<rparr>"

definition sample_loads :: "pyval \<Rightarrow> pystr \<Rightarrow> pyval option" where
  "sample_loads v raw = (if raw = py ''{...}'' then Some v else None)"

definition with_key :: "pystr \<Rightarrow> pystr option" where
  "with_key name = (if name = py ''OPENAI_API_KEY'' then Some (py ''sk-test'') else None)"

definition without_key :: "pystr \<Rightarrow> pystr option" where
  "without_key name = None"

definition sample_env :: "(pystr \<Rightarrow> pystr option) \<Rightarrow> pystr \<Rightarrow> pyval \<Rightarrow> environ" where
  "sample_env environment reason v =
     \<lparr>getenv = environment,
      new_client = (\<lambda>api_key. None),
      create = (\<lambda>req a. Returns (sample_response reason)),
      loads = sample_loads v\<rparr>"

definition fresh_process :: world where
  "fresh_process = \<lparr>client = ClientNone, trace = []\<rparr>"

section \<open>Properties\<close>

subsection \<open>Strings and the length threshold\<close>

lemma py_eq_iff: "py a = py b \<longleftrightarrow> a = b"
  unfolding py_def by (simp add: inj_map_eq_map inj_on_def)

lemma keys_distinct:
  "distinct [py ''description'', py ''content'', py ''activities'', py ''questions'',
     py ''summary'']"
  by (simp add: py_eq_iff)

text \<open>
  The mantissa of \<open>lit_0_7\<close> has 53 bits and lies within half a unit in the last place
  of \<open>7/10\<close>: it is the binary64 number nearest to \<open>0.7\<close>.
\<close>

lemma lit_0_7_nearest:
  "2 ^ 52 \<le> fst lit_0_7 \<and> fst lit_0_7 < 2 ^ 53 \<and> snd lit_0_7 = - 53 \<and>
   \<bar>10 * fst lit_0_7 - 7 * 2 ^ 53\<bar> \<le> (5::int)"
  by (simp add: lit_0_7_def)

lemma word_bound_400: "word_bound 400 = 280"
  by code_simp

lemma word_bound_600: "word_bound 600 = 420"
  by code_simp

lemma word_bound_800: "word_bound 800 = 560"
  by code_simp

lemma min_words_cases:
  "min_words (params_by_duration d) =
     (if d \<le> 30 then 400 else if d \<le> 60 then 600 else 800)"
  by (simp add: params_by_duration_def)

lemma word_bound_params:
  "word_bound (min_words (params_by_duration d)) =
     (if d \<le> 30 then 280 else if d \<le> 60 then 420 else 560)"
  by (simp add: min_words_cases word_bound_400 word_bound_600 word_bound_800)

text \<open>
  For the three minimum word counts that occur, the truncated binary64 product is exactly
  seven tenths, so the comparison of line 164 is the comparison with 70 percent.
\<close>

lemma word_bound_seventy_percent:
  "int n < word_bound (min_words (params_by_duration d)) \<longleftrightarrow>
   10 * int n < 7 * min_words (params_by_duration d)"
  by (auto simp: min_words_cases word_bound_400 word_bound_600 word_bound_800)

lemma is_str_iff: "is_str v \<longleftrightarrow> (\<exists>s. v = PyStr s)"
  by (cases v) simp_all

lemma all_str_iff: "list_all is_str xs \<longleftrightarrow> (\<exists>ss. xs = map PyStr ss)"
  by (induction xs) (auto simp: is_str_iff Cons_eq_map_conv)

lemma is_str_list_iff: "is_str_list v \<longleftrightarrow> (\<exists>ss. v = PyList (map PyStr ss))"
  by (cases v) (simp_all add: all_str_iff)

subsection \<open>Size tiers\<close>

text \<open>
  Claim C2. The size parameters that a request uses are a function of the duration alone,
  whatever the topic, subject, grade level and environment are: every duration of
  at most 30 minutes selects the SHORT parameters (paragraphs 4-5, at least 400 words,
  5-7 activities, 6-10 questions), every duration from 31 to 60 the MEDIUM parameters
  (7-9, 600, 6-8, 8-12), every duration above 60 the LONG parameters (12-16, 800, 8-10,
  10-15).
\<close>

theorem C2_params_by_duration:
  "req_params (request_of env topic subject grade_level d) = params_by_duration d \<and>
   (d \<le> 30 \<longrightarrow> params_by_duration d =
      \<lparr>paragraphs = py ''4-5'', min_words = 400, max_tokens = 1600,
       activities_count = py ''5-7'', questions_count = py ''6-10'',
       lesson_type = py ''SHORT''\<rparr>) \<and>
   (31 \<le> d \<and> d \<le> 60 \<longrightarrow> params_by_duration d =
      \<lparr>paragraphs = py ''7-9'', min_words = 600, max_tokens = 2600,
       activities_count = py ''6-8'', questions_count = py ''8-12'',
       lesson_type = py ''MEDIUM''\<rparr>) \<and>
   (60 < d \<longrightarrow> params_by_duration d =
      \<lparr>paragraphs = py ''12-16'', min_words = 800, max_tokens = 4200,
       activities_count = py ''8-10'', questions_count = py ''10-15'',
       lesson_type = py ''LONG''\<rparr>)"
  by (simp add: params_by_duration_def request_of_def)

text \<open>
  The boundary durations 30, 31, 60 and 61 select SHORT, MEDIUM, MEDIUM and LONG, and the
  request of the 45-minute lesson on photosynthesis carries the MEDIUM parameters.
\<close>

theorem C2_boundaries:
  "params_by_duration 30 =
      \<lparr>paragraphs = py ''4-5'', min_words = 400, max_tokens = 1600,
       activities_count = py ''5-7'', questions_count = py ''6-10'',
       lesson_type = py ''SHORT''\<rparr> \<and>
   params_by_duration 31 =
      \<lparr>paragraphs = py ''7-9'', min_words = 600, max_tokens = 2600,
       activities_count = py ''6-8'', questions_count = py ''8-12'',
       lesson_type = py ''MEDIUM''\<rparr> \<and>
   params_by_duration 60 =
      \<lparr>paragraphs = py ''7-9'', min_words = 600, max_tokens = 2600,
       activities_count = py ''6-8'', questions_count = py ''8-12'',
       lesson_type = py ''MEDIUM''\<rparr> \<and>
   params_by_duration 61 =
      \<lparr>paragraphs = py ''12-16'', min_words = 800, max_tokens = 4200,
       activities_count = py ''8-10'', questions_count = py ''10-15'',
       lesson_type = py ''LONG''\<rparr> \<and>
   req_params (request_of (sample_env with_key (py ''stop'') (lesson_value 650))
       (py ''Photosynthesis'') (py ''Biology'') (py ''Grade 7'') 45) =
      \<lparr>paragraphs = py ''7-9'', min_words = 600, max_tokens = 2600,
       activities_count = py ''6-8'', questions_count = py ''8-12'',
       lesson_type = py ''MEDIUM''\<rparr>"
proof -
  note t = C2_params_by_duration [where env = "sample_env with_key (py ''stop'') (lesson_value 650)"
      and topic = "py ''Photosynthesis''" and subject = "py ''Biology''"
      and grade_level = "py ''Grade 7''"]
  from t [where d = 30] t [where d = 31] t [where d = 60] t [where d = 61] t [where d = 45]
  show ?thesis by simp
qed

subsection \<open>Validation\<close>

lemma and_then_Inr: "and_then r f = Inr y \<longleftrightarrow> (\<exists>v. r = Inr v \<and> f v = Inr y)"
  by (cases r) (simp_all add: and_then_def)

lemma and_then_Inl: "and_then r f = Inl e \<longleftrightarrow> r = Inl e \<or> (\<exists>v. r = Inr v \<and> f v = Inl e)"
  by (cases r) (simp_all add: and_then_def)

lemma getitem_Inr: "getitem d k = Inr v \<longleftrightarrow> map_of d k = Some v"
  by (simp add: getitem_def split: option.splits)

lemma must_be_string_Inr:
  "must_be_string d k = Inr u \<longleftrightarrow> (\<exists>s. map_of d k = Some (PyStr s))"
  by (auto simp: must_be_string_def and_then_Inr getitem_Inr is_str_iff)

lemma must_be_str_list_Inr:
  "must_be_str_list d k = Inr u \<longleftrightarrow> (\<exists>ss. map_of d k = Some (PyList (map PyStr ss)))"
  by (auto simp: must_be_str_list_def and_then_Inr getitem_Inr is_str_list_iff)

lemma validate_result_Inr:
  "validate_result v = Inr u \<longleftrightarrow>
     (\<exists>d s1 s2 a q s5. v = PyDict d \<and> set (map fst d) = expected_keys \<and>
        map_of d (py ''description'') = Some (PyStr s1) \<and>
        map_of d (py ''content'') = Some (PyStr s2) \<and>
        map_of d (py ''activities'') = Some (PyList (map PyStr a)) \<and>
        map_of d (py ''questions'') = Some (PyList (map PyStr q)) \<and>
        map_of d (py ''summary'') = Some (PyStr s5))"
proof (cases v)
  case (PyDict d)
  show ?thesis
    unfolding PyDict
    by (simp add: and_then_Inr must_be_string_Inr must_be_str_list_Inr) blast
qed simp_all

lemma bundle_of_Inr:
  "bundle_of d = Inr b \<longleftrightarrow>
     (\<exists>v1 v2 v3 v4 v5.
        map_of d (py ''description'') = Some v1 \<and> map_of d (py ''content'') = Some v2 \<and>
        map_of d (py ''activities'') = Some v3 \<and> map_of d (py ''questions'') = Some v4 \<and>
        map_of d (py ''summary'') = Some v5 \<and>
        b = [(py ''description'', v1), (py ''content'', v2), (py ''activities'', v3),
             (py ''questions'', v4), (py ''summary'', v5)])"
  by (auto simp: bundle_of_def and_then_Inr getitem_Inr)

lemma must_be_string_Inl:
  "k \<in> set (map fst d) \<Longrightarrow> must_be_string d k = Inl e \<Longrightarrow> e = MustBeString k"
  by (cases "map_of d k")
    (auto simp: must_be_string_def and_then_def getitem_def map_of_eq_None_iff
      split: if_splits)

lemma must_be_str_list_Inl:
  "k \<in> set (map fst d) \<Longrightarrow> must_be_str_list d k = Inl e \<Longrightarrow> e = MustBeStrList k"
  by (cases "map_of d k")
    (auto simp: must_be_str_list_def and_then_def getitem_def map_of_eq_None_iff
      split: if_splits)

lemma validate_result_Inl_forms:
  assumes "set (map fst d) = expected_keys"
    and "validate_result (PyDict d) = Inl e"
  shows "\<exists>k. e = MustBeString k \<or> e = MustBeStrList k"
proof -
  have k: "py ''description'' \<in> set (map fst d)" "py ''content'' \<in> set (map fst d)"
    "py ''summary'' \<in> set (map fst d)" "py ''activities'' \<in> set (map fst d)"
    "py ''questions'' \<in> set (map fst d)"
    unfolding assms(1) by (simp_all add: expected_keys_def)
  from assms have
    "must_be_string d (py ''description'') = Inl e \<or>
     must_be_string d (py ''content'') = Inl e \<or>
     must_be_string d (py ''summary'') = Inl e \<or>
     must_be_str_list d (py ''activities'') = Inl e \<or>
     must_be_str_list d (py ''questions'') = Inl e"
    by (auto simp: and_then_Inl)
  then show ?thesis
    using k must_be_string_Inl must_be_str_list_Inl by blast
qed

subsection \<open>The checks on a response\<close>

text \<open>
  A response that passes every rejecting check is returned, with the paragraph warning
  when the text has fewer than three paragraphs; conversely every returned value comes
  from such a response.
\<close>

lemma check_response_accept:
  assumes "choices r = c # cs"
    and "finish_reason c \<noteq> Some (py ''length'')"
    and "raw_text c \<noteq> []"
    and "L (raw_text c) = Some (PyDict d)"
    and "validate_result (PyDict d) = Inr ()"
    and "map_of d (py ''content'') = Some (PyStr s)"
    and "\<not> int (length (py_split s)) < word_bound (min_words p)"
  shows "\<exists>b. bundle_of d = Inr b \<and>
           check_response L p dur r =
             Inr (b, if paragraph_count s < 3
                     then [WarnParagraphs (paragraph_count s) (paragraphs p)] else [])"
proof -
  from assms(5) obtain b where b: "bundle_of d = Inr b"
    unfolding validate_result_Inr bundle_of_Inr by auto
  have "check_response L p dur r =
          Inr (b, if paragraph_count s < 3
                  then [WarnParagraphs (paragraph_count s) (paragraphs p)] else [])"
    using assms b by (simp add: check_response_def and_then_def Let_def)
  with b show ?thesis by blast
qed

lemma check_response_Inr:
  assumes "check_response L p dur r = Inr (b, evs)"
  shows "\<exists>c cs d s1 s2 a q s5.
           choices r = c # cs \<and> finish_reason c \<noteq> Some (py ''length'') \<and>
           raw_text c \<noteq> [] \<and> L (raw_text c) = Some (PyDict d) \<and>
           validate_result (PyDict d) = Inr () \<and>
           map_of d (py ''content'') = Some (PyStr s2) \<and>
           \<not> int (length (py_split s2)) < word_bound (min_words p) \<and>
           b = [(py ''description'', PyStr s1), (py ''content'', PyStr s2),
                (py ''activities'', PyList (map PyStr a)),
                (py ''questions'', PyList (map PyStr q)), (py ''summary'', PyStr s5)] \<and>
           evs = (if paragraph_count s2 < 3
                  then [WarnParagraphs (paragraph_count s2) (paragraphs p)] else [])"
proof -
  from assms obtain c cs where c: "choices r = c # cs"
    by (cases "choices r") (simp_all add: check_response_def)
  from assms c have fr: "finish_reason c \<noteq> Some (py ''length'')"
    by (auto simp: check_response_def Let_def)
  from assms c fr have raw: "raw_text c \<noteq> []"
    by (auto simp: check_response_def Let_def)
  from assms c fr raw obtain v where v: "L (raw_text c) = Some v"
    by (cases "L (raw_text c)") (simp_all add: check_response_def Let_def)
  from assms c fr raw v have ok: "validate_result v = Inr ()"
    by (cases "validate_result v") (simp_all add: check_response_def Let_def and_then_def)
  then obtain d s1 s2 a q s5 where d: "v = PyDict d"
    and f: "map_of d (py ''description'') = Some (PyStr s1)"
      "map_of d (py ''content'') = Some (PyStr s2)"
      "map_of d (py ''activities'') = Some (PyList (map PyStr a))"
      "map_of d (py ''questions'') = Some (PyList (map PyStr q))"
      "map_of d (py ''summary'') = Some (PyStr s5)"
    unfolding validate_result_Inr by blast
  have bo: "bundle_of d = Inr [(py ''description'', PyStr s1), (py ''content'', PyStr s2),
                (py ''activities'', PyList (map PyStr a)),
                (py ''questions'', PyList (map PyStr q)), (py ''summary'', PyStr s5)]"
    using f by (simp add: bundle_of_Inr)
  have rest: "\<not> int (length (py_split s2)) < word_bound (min_words p) \<and>
     b = [(py ''description'', PyStr s1), (py ''content'', PyStr s2),
                (py ''activities'', PyList (map PyStr a)),
                (py ''questions'', PyList (map PyStr q)), (py ''summary'', PyStr s5)] \<and>
     evs = (if paragraph_count s2 < 3
                  then [WarnParagraphs (paragraph_count s2) (paragraphs p)] else [])"
    using assms c fr raw v ok d f(2) bo
    by (auto simp: check_response_def Let_def and_then_def split: if_splits)
  show ?thesis
    using c fr raw v ok d f(2) rest by blast
qed

lemma check_response_invalid:
  assumes "choices r = c # cs"
    and "L (raw_text c) = Some v"
    and "validate_result v = Inl e"
  shows "check_response L p dur r =
     Inl (if finish_reason c = Some (py ''length'') then Truncated
          else if raw_text c = [] then EmptyResponse else e)"
  using assms by (simp add: check_response_def Let_def and_then_def)

lemma check_response_too_short:
  assumes "choices r = c # cs"
    and "finish_reason c \<noteq> Some (py ''length'')"
    and "raw_text c \<noteq> []"
    and "L (raw_text c) = Some (PyDict d)"
    and "validate_result (PyDict d) = Inr ()"
    and "map_of d (py ''content'') = Some (PyStr s)"
    and "int (length (py_split s)) < word_bound (min_words p)"
  shows "check_response L p dur r = Inl (ContentTooShort (length (py_split s)) (min_words p) dur)"
  using assms by (simp add: check_response_def Let_def and_then_def)

subsection \<open>The retry loop\<close>

lemma range_1_4: "[1 ..< 4] = [1, 2, 3::nat]"
  by (simp add: upt_rec)

lemma attempt_Inl:
  "attempt_outcome env req a = Inl e \<Longrightarrow> attempt env req a w = (Inl e, emit (ApiCall a req) w)"
  by (simp add: attempt_def Let_def)

lemma attempt_Inr:
  "attempt_outcome env req a = Inr (b, evs) \<Longrightarrow>
   attempt env req a w = (Inr b, w\<lparr>trace := trace w @ ApiCall a req # evs\<rparr>)"
  by (simp add: attempt_def emit_def Let_def)

lemma attempt_outcome_Inr:
  assumes "attempt_outcome env req a = Inr (b, evs)"
  shows "\<exists>r. create env req a = Returns r \<and>
           check_response (loads env) (req_params req) (req_duration req) r = Inr (b, evs)"
  using assms by (cases "create env req a") (simp_all add: attempt_outcome_def)

lemma attempts_first_ok:
  assumes "attempt_outcome env req a = Inr (b, evs)"
  shows "attempts env req (a # rest) last_error w =
     (Inr b, w\<lparr>trace := trace w @ ApiCall a req # evs\<rparr>)"
  using assms by (simp add: attempt_Inr)

lemma attempts_all_fail:
  assumes "attempt_outcome env req 1 = Inl e1"
    and "attempt_outcome env req 2 = Inl e2"
    and "attempt_outcome env req 3 = Inl e3"
  shows "attempts env req [1, 2, 3] last_error w =
     (Inl (RetriesFailed (Some e3)),
      w\<lparr>trace := trace w @
         [ApiCall 1 req, ErrorAttempt 1 e1, Sleep 1,
          ApiCall 2 req, ErrorAttempt 2 e2, Sleep 2,
          ApiCall 3 req, ErrorAttempt 3 e3, Sleep 3]\<rparr>)"
  using assms by (simp add: attempt_Inl emit_def)

lemma attempts_Inr:
  "attempts env req as last_error w = (Inr b, w') \<Longrightarrow>
   \<exists>a evs. a \<in> set as \<and> attempt_outcome env req a = Inr (b, evs)"
proof (induction as arbitrary: last_error w)
  case Nil
  then show ?case by simp
next
  case (Cons a as)
  show ?case
  proof (cases "attempt_outcome env req a")
    case (Inl e)
    with Cons.prems have "attempts env req as (Some e)
        (emit (Sleep a) (emit (ErrorAttempt a e) (emit (ApiCall a req) w))) = (Inr b, w')"
      by (simp add: attempt_Inl)
    from Cons.IH [OF this] show ?thesis by auto
  next
    case (Inr x)
    obtain b' evs where x: "x = (b', evs)" by (cases x)
    with Inr Cons.prems have "b' = b" by (simp add: attempt_Inr)
    with Inr x show ?thesis by auto
  qed
qed

lemma attempts_Inl:
  "attempts env req as le w = (Inl e, w') \<Longrightarrow>
   (as = [] \<and> e = RetriesFailed le) \<or>
   (as \<noteq> [] \<and> (\<exists>l. e = RetriesFailed (Some l) \<and> attempt_outcome env req (last as) = Inl l))"
proof (induction as arbitrary: le w)
  case Nil
  then show ?case by simp
next
  case (Cons a as)
  show ?case
  proof (cases "attempt_outcome env req a")
    case (Inl x)
    with Cons.prems have "attempts env req as (Some x)
        (emit (Sleep a) (emit (ErrorAttempt a x) (emit (ApiCall a req) w))) = (Inl e, w')"
      by (simp add: attempt_Inl)
    from Cons.IH [OF this] Inl show ?thesis by auto
  next
    case (Inr x)
    obtain b evs where "x = (b, evs)" by (cases x)
    with Inr Cons.prems show ?thesis by (simp add: attempt_Inr)
  qed
qed

lemma req_params_request_of [simp]:
  "req_params (request_of env topic subject grade_level dur) = params_by_duration dur"
  by (simp add: request_of_def)

lemma req_duration_request_of [simp]:
  "req_duration (request_of env topic subject grade_level dur) = dur"
  by (simp add: request_of_def)

lemma generate_Inr:
  assumes "generate_lesson_content env topic subject grade_level dur w = (Inr b, w')"
  shows "\<exists>a evs. attempt_outcome env (request_of env topic subject grade_level dur) a = Inr (b, evs)"
proof (cases "get_openai_client env w")
  case (Pair c w0)
  show ?thesis
  proof (cases c)
    case None
    with Pair assms show ?thesis by (simp add: generate_lesson_content_def)
  next
    case (Some k)
    with Pair assms have "attempts env (request_of env topic subject grade_level dur)
        [1 ..< 4] None w0 = (Inr b, w')"
      by (simp add: generate_lesson_content_def)
    from attempts_Inr [OF this] show ?thesis by blast
  qed
qed

lemma generate_Inl:
  assumes "fst (generate_lesson_content env topic subject grade_level dur w) = Inl e"
  shows "e = NotConfigured \<or>
     (\<exists>l. e = RetriesFailed (Some l) \<and>
        attempt_outcome env (request_of env topic subject grade_level dur) 3 = Inl l)"
proof (cases "get_openai_client env w")
  case (Pair c w0)
  show ?thesis
  proof (cases c)
    case None
    with Pair assms show ?thesis by (simp add: generate_lesson_content_def)
  next
    case (Some k)
    obtain res w' where r: "attempts env (request_of env topic subject grade_level dur)
        [1, 2, 3] None w0 = (res, w')"
      by (cases "attempts env (request_of env topic subject grade_level dur) [1, 2, 3] None w0")
    with Pair Some assms have "res = Inl e"
      unfolding generate_lesson_content_def range_1_4 by simp
    with r attempts_Inl [of env _ "[1, 2, 3]" None w0 e w'] show ?thesis by auto
  qed
qed

text \<open>
  What the function does with the response to its first call, once the client is there
  and the response has passed the checks before the length check.
\<close>

lemma generate_first_accepted:
  assumes "get_openai_client env w = (Some k, w0)"
    and "create env (request_of env topic subject grade_level dur) 1 = Returns r"
    and "choices r = c # cs"
    and "finish_reason c \<noteq> Some (py ''length'')"
    and "raw_text c \<noteq> []"
    and "loads env (raw_text c) = Some (PyDict d)"
    and "validate_result (PyDict d) = Inr ()"
    and "map_of d (py ''content'') = Some (PyStr s)"
    and "\<not> int (length (py_split s)) < word_bound (min_words (params_by_duration dur))"
  shows "\<exists>b. bundle_of d = Inr b \<and>
     generate_lesson_content env topic subject grade_level dur w =
       (Inr b,
        w0\<lparr>trace := trace w0 @
           ApiCall 1 (request_of env topic subject grade_level dur) #
           (if paragraph_count s < 3
            then [WarnParagraphs (paragraph_count s) (paragraphs (params_by_duration dur))]
            else [])\<rparr>)"
proof -
  let ?req = "request_of env topic subject grade_level dur"
  let ?evs = "if paragraph_count s < 3
     then [WarnParagraphs (paragraph_count s) (paragraphs (params_by_duration dur))] else []"
  from check_response_accept [where L = "loads env" and p = "params_by_duration dur"
      and dur = dur, OF assms(3-9)]
  obtain b where b: "bundle_of d = Inr b"
    and c: "check_response (loads env) (params_by_duration dur) dur r = Inr (b, ?evs)"
    by blast
  have o: "attempt_outcome env ?req 1 = Inr (b, ?evs)"
    using assms(2) c by (simp add: attempt_outcome_def)
  have "generate_lesson_content env topic subject grade_level dur w =
      attempts env ?req [1, 2, 3] None w0"
    unfolding generate_lesson_content_def range_1_4 assms(1) by simp
  also have "\<dots> = (Inr b, w0\<lparr>trace := trace w0 @ ApiCall 1 ?req # ?evs\<rparr>)"
    by (rule attempts_first_ok [OF o])
  finally show ?thesis using b by blast
qed

lemma generate_first_too_short:
  assumes "get_openai_client env w = (Some k, w0)"
    and "create env (request_of env topic subject grade_level dur) 1 = Returns r"
    and "choices r = c # cs"
    and "finish_reason c \<noteq> Some (py ''length'')"
    and "raw_text c \<noteq> []"
    and "loads env (raw_text c) = Some (PyDict d)"
    and "validate_result (PyDict d) = Inr ()"
    and "map_of d (py ''content'') = Some (PyStr s)"
    and "int (length (py_split s)) < word_bound (min_words (params_by_duration dur))"
  shows "generate_lesson_content env topic subject grade_level dur w =
     attempts env (request_of env topic subject grade_level dur) [2, 3]
       (Some (ContentTooShort (length (py_split s))
          (min_words (params_by_duration dur)) dur))
       (w0\<lparr>trace := trace w0 @
          [ApiCall 1 (request_of env topic subject grade_level dur),
           ErrorAttempt 1 (ContentTooShort (length (py_split s))
              (min_words (params_by_duration dur)) dur),
           Sleep 1]\<rparr>)"
proof -
  let ?req = "request_of env topic subject grade_level dur"
  let ?e = "ContentTooShort (length (py_split s)) (min_words (params_by_duration dur)) dur"
  have "check_response (loads env) (params_by_duration dur) dur r = Inl ?e"
    by (rule check_response_too_short [where L = "loads env", OF assms(3-9)])
  then have o: "attempt_outcome env ?req 1 = Inl ?e"
    using assms(2) by (simp add: attempt_outcome_def)
  have "generate_lesson_content env topic subject grade_level dur w =
      attempts env ?req (1 # [2, 3]) None w0"
    unfolding generate_lesson_content_def range_1_4 assms(1) by simp
  also have "\<dots> = attempts env ?req [2, 3] (Some ?e)
      (emit (Sleep 1) (emit (ErrorAttempt 1 ?e) (emit (ApiCall 1 ?req) w0)))"
    unfolding attempts.simps(2) attempt_Inl [OF o] by simp
  also have "emit (Sleep 1) (emit (ErrorAttempt 1 ?e) (emit (ApiCall 1 ?req) w0)) =
      w0\<lparr>trace := trace w0 @ [ApiCall 1 ?req, ErrorAttempt 1 ?e, Sleep 1]\<rparr>"
    by (simp add: emit_def)
  finally show ?thesis .
qed

subsection \<open>Evaluation of the sample inputs\<close>

lemma split_ws_word:
  "split_ws [] (py ''word '' @ rest) = py ''word'' # split_ws [] rest"
  by (simp add: py_def py_isspace_def)

lemma py_split_words: "py_split (words n) = replicate n (py ''word'')"
  unfolding py_split_def words_def
  by (induction n) (simp_all add: split_ws_word)

lemma length_py_split_words: "length (py_split (words n)) = n"
  by (simp add: py_split_words)

lemma no_line_feed_words: "10 \<notin> set (words n)"
  by (induction n) (simp_all add: words_def py_def)

lemma split_sep_no_line_feed:
  "10 \<notin> set s \<Longrightarrow> split_sep [10, 10] cur s = [cur @ s]"
  by (induction s arbitrary: cur) auto

lemma paragraph_count_words: "0 < n \<Longrightarrow> paragraph_count (words n) = 1"
proof -
  assume "0 < n"
  then obtain m where n: "n = Suc m" by (cases n) auto
  have "py_strip (words n) \<noteq> []"
    unfolding n words_def py_strip_def
    by (simp add: py_def py_isspace_def dropWhile_append3)
  then show ?thesis
    by (simp add: paragraph_count_def py_split_on_def split_sep_no_line_feed no_line_feed_words)
qed

lemma raw_text_sample: "raw_text (sample_choice reason) = py ''{...}''"
  by (simp add: raw_text_def sample_choice_def py_strip_def py_def py_isspace_def)

lemma raw_text_sample_nonempty: "raw_text (sample_choice reason) \<noteq> []"
  by (simp add: raw_text_sample py_def)

lemma sample_loads_raw: "sample_loads v (raw_text (sample_choice reason)) = Some v"
  by (simp add: raw_text_sample sample_loads_def)

lemma finish_reason_sample: "finish_reason (sample_choice reason) = Some reason"
  by (simp add: sample_choice_def)

lemma create_sample: "create (sample_env g reason v) req a = Returns (sample_response reason)"
  by (simp add: sample_env_def)

lemma loads_sample: "loads (sample_env g reason v) = sample_loads v"
  by (simp add: sample_env_def)

lemma loads_sample_raw:
  "loads (sample_env g reason v) (raw_text (sample_choice reason)) = Some v"
  by (simp add: loads_sample sample_loads_raw)

lemma choices_sample: "choices (sample_response reason) = sample_choice reason # []"
  by (simp add: sample_response_def)

lemma client_sample:
  "get_openai_client (sample_env with_key reason v) fresh_process =
     (Some (py ''sk-test''), \<lparr>client = Client (py ''sk-test''), trace = []\<rparr>)"
  by (simp add: get_openai_client_def sample_env_def fresh_process_def with_key_def py_def)

lemma map_of_lesson_dict:
  "map_of (lesson_dict cv av) (py ''content'') = Some cv"
  "map_of (lesson_dict cv av) (py ''activities'') = Some av"
  "map_of (lesson_dict cv av) (py ''description'') = Some (PyStr (py ''How plants make food''))"
  "map_of (lesson_dict cv av) (py ''questions'') =
     Some (PyList (map PyStr (replicate 9 (py ''Why are leaves green?''))))"
  "map_of (lesson_dict cv av) (py ''summary'') = Some (PyStr (py ''Plants turn light into sugar.''))"
  by (simp_all add: lesson_dict_def py_eq_iff)

lemma keys_lesson_dict: "set (map fst (lesson_dict cv av)) = expected_keys"
  by (auto simp: lesson_dict_def expected_keys_def)

lemma validate_lesson_dict:
  "validate_result (PyDict (lesson_dict (PyStr s) (PyList (map PyStr ss)))) = Inr ()"
proof -
  have k: "set (map fst (lesson_dict (PyStr s) (PyList (map PyStr ss)))) = expected_keys"
    by (rule keys_lesson_dict)
  show ?thesis
    unfolding validate_result.simps k
    by (simp add: and_then_def must_be_string_def must_be_str_list_def getitem_def
        lesson_dict_def py_eq_iff list_all_iff)
qed

lemma bundle_of_lesson_dict: "bundle_of (lesson_dict cv av) = Inr (lesson_dict cv av)"
  by (simp add: bundle_of_Inr map_of_lesson_dict) (simp add: lesson_dict_def)

lemma sample_accepted:
  assumes "reason \<noteq> py ''length''" and "0 < n"
    and "\<not> int n < word_bound (min_words (req_params req))"
  shows "attempt_outcome (sample_env g reason (lesson_value n)) req a =
     Inr (lesson_dict (PyStr (words n)) (PyList (map PyStr (replicate 7 (py ''Draw a leaf'')))),
          [WarnParagraphs 1 (paragraphs (req_params req))])"
proof -
  have "\<exists>b. bundle_of (lesson_dict (PyStr (words n))
            (PyList (map PyStr (replicate 7 (py ''Draw a leaf''))))) = Inr b \<and>
      check_response (sample_loads (lesson_value n)) (req_params req) (req_duration req)
        (sample_response reason) =
      Inr (b, if paragraph_count (words n) < 3
              then [WarnParagraphs (paragraph_count (words n)) (paragraphs (req_params req))]
              else [])"
  proof (rule check_response_accept)
    show "choices (sample_response reason) = sample_choice reason # []"
      by (rule choices_sample)
    show "finish_reason (sample_choice reason) \<noteq> Some (py ''length'')"
      using assms(1) by (simp add: finish_reason_sample)
    show "raw_text (sample_choice reason) \<noteq> []"
      by (rule raw_text_sample_nonempty)
    show "sample_loads (lesson_value n) (raw_text (sample_choice reason)) =
        Some (PyDict (lesson_dict (PyStr (words n))
            (PyList (map PyStr (replicate 7 (py ''Draw a leaf''))))))"
      by (simp add: sample_loads_raw lesson_value_def)
    show "validate_result (PyDict (lesson_dict (PyStr (words n))
            (PyList (map PyStr (replicate 7 (py ''Draw a leaf'')))))) = Inr ()"
      by (rule validate_lesson_dict)
    show "map_of (lesson_dict (PyStr (words n))
            (PyList (map PyStr (replicate 7 (py ''Draw a leaf''))))) (py ''content'') =
        Some (PyStr (words n))"
      by (rule map_of_lesson_dict)
    show "\<not> int (length (py_split (words n))) < word_bound (min_words (req_params req))"
      using assms(3) by (simp add: length_py_split_words)
  qed
  then show ?thesis
    using assms(2)
    by (simp add: attempt_outcome_def create_sample loads_sample bundle_of_lesson_dict
        paragraph_count_words)
qed

lemma truncated_outcome:
  "attempt_outcome (sample_env g (py ''length'') v) req a = Inl Truncated"
  by (simp add: attempt_outcome_def create_sample check_response_def choices_sample
      finish_reason_sample Let_def)

lemma generate_sample:
  assumes "reason \<noteq> py ''length''" and "0 < n"
    and "\<not> int n < word_bound (min_words (params_by_duration dur))"
  shows "generate_lesson_content (sample_env with_key reason (lesson_value n))
           topic subject grade_level dur fresh_process =
         (Inr (lesson_dict (PyStr (words n))
                 (PyList (map PyStr (replicate 7 (py ''Draw a leaf''))))),
          \<lparr>client = Client (py ''sk-test''),
           trace =
             [ApiCall 1 (request_of (sample_env with_key reason (lesson_value n))
                topic subject grade_level dur),
              WarnParagraphs 1 (paragraphs (params_by_duration dur))]\<rparr>)"
proof -
  let ?env = "sample_env with_key reason (lesson_value n)"
  let ?req = "request_of ?env topic subject grade_level dur"
  let ?w0 = "\<lparr>client = Client (py ''sk-test''), trace = []\<rparr>"
  have o: "attempt_outcome ?env ?req 1 =
      Inr (lesson_dict (PyStr (words n))
             (PyList (map PyStr (replicate 7 (py ''Draw a leaf'')))),
           [WarnParagraphs 1 (paragraphs (req_params ?req))])"
    using assms by (intro sample_accepted) simp_all
  have "generate_lesson_content ?env topic subject grade_level dur fresh_process =
      attempts ?env ?req [1, 2, 3] None ?w0"
    unfolding generate_lesson_content_def range_1_4 client_sample by simp
  also have "\<dots> = (Inr (lesson_dict (PyStr (words n))
             (PyList (map PyStr (replicate 7 (py ''Draw a leaf''))))),
      ?w0\<lparr>trace := trace ?w0 @ ApiCall 1 ?req #
          [WarnParagraphs 1 (paragraphs (req_params ?req))]\<rparr>)"
    by (rule attempts_first_ok [OF o])
  finally show ?thesis by simp
qed

lemma sample_too_short:
  assumes "reason \<noteq> py ''length''"
    and "int n < word_bound (min_words (req_params req))"
  shows "attempt_outcome (sample_env g reason (lesson_value n)) req a =
     Inl (ContentTooShort n (min_words (req_params req)) (req_duration req))"
proof -
  have "check_response (sample_loads (lesson_value n)) (req_params req) (req_duration req)
      (sample_response reason) =
      Inl (ContentTooShort (length (py_split (words n))) (min_words (req_params req))
        (req_duration req))"
  proof (rule check_response_too_short)
    show "choices (sample_response reason) = sample_choice reason # []"
      by (rule choices_sample)
    show "finish_reason (sample_choice reason) \<noteq> Some (py ''length'')"
      using assms(1) by (simp add: finish_reason_sample)
    show "raw_text (sample_choice reason) \<noteq> []"
      by (rule raw_text_sample_nonempty)
    show "sample_loads (lesson_value n) (raw_text (sample_choice reason)) =
        Some (PyDict (lesson_dict (PyStr (words n))
            (PyList (map PyStr (replicate 7 (py ''Draw a leaf''))))))"
      by (simp add: sample_loads_raw lesson_value_def)
    show "validate_result (PyDict (lesson_dict (PyStr (words n))
            (PyList (map PyStr (replicate 7 (py ''Draw a leaf'')))))) = Inr ()"
      by (rule validate_lesson_dict)
    show "map_of (lesson_dict (PyStr (words n))
            (PyList (map PyStr (replicate 7 (py ''Draw a leaf''))))) (py ''content'') =
        Some (PyStr (words n))"
      by (rule map_of_lesson_dict)
    show "int (length (py_split (words n))) < word_bound (min_words (req_params req))"
      using assms(2) by (simp add: length_py_split_words)
  qed
  then show ?thesis
    by (simp add: attempt_outcome_def create_sample loads_sample length_py_split_words)
qed

subsection \<open>The returned bundle\<close>

text \<open>
  Claim C1. Every call of \<^verbatim>\<open>generate_lesson_content\<close> either raises or returns a dict
  with exactly the five keys description, content, activities, questions and summary, in
  which description, content and summary are strings, activities and questions are lists
  of strings, and the word count of content passes the minimum-length check of the
  duration's tier (it is at least \<open>word_bound\<close> of the tier's minimum, which is 70 percent
  of it). No other value is ever returned.
\<close>

theorem C1_returned_bundle:
  "(\<exists>e. fst (generate_lesson_content env topic subject grade_level dur w) = Inl e) \<or>
   (\<exists>b s1 s2 a q s5.
      fst (generate_lesson_content env topic subject grade_level dur w) = Inr b \<and>
      b = [(py ''description'', PyStr s1), (py ''content'', PyStr s2),
           (py ''activities'', PyList (map PyStr a)),
           (py ''questions'', PyList (map PyStr q)), (py ''summary'', PyStr s5)] \<and>
      set (map fst b) = expected_keys \<and> distinct (map fst b) \<and>
      word_bound (min_words (params_by_duration dur)) \<le> int (length (py_split s2)) \<and>
      7 * min_words (params_by_duration dur) \<le> 10 * int (length (py_split s2)))"
proof (cases "generate_lesson_content env topic subject grade_level dur w")
  case (Pair res w')
  show ?thesis
  proof (cases res)
    case (Inl e)
    with Pair show ?thesis by simp
  next
    case (Inr b)
    with Pair obtain a evs where
      "attempt_outcome env (request_of env topic subject grade_level dur) a = Inr (b, evs)"
      using generate_Inr by blast
    then obtain r where
      "check_response (loads env) (params_by_duration dur) dur r = Inr (b, evs)"
      using attempt_outcome_Inr by fastforce
    from check_response_Inr [OF this] obtain s1 s2 a' q s5 where
      b: "b = [(py ''description'', PyStr s1), (py ''content'', PyStr s2),
                (py ''activities'', PyList (map PyStr a')),
                (py ''questions'', PyList (map PyStr q)), (py ''summary'', PyStr s5)]"
      and wc: "\<not> int (length (py_split s2)) < word_bound (min_words (params_by_duration dur))"
      by blast
    from wc have "\<not> 10 * int (length (py_split s2)) < 7 * min_words (params_by_duration dur)"
      using word_bound_seventy_percent by blast
    moreover from b have "set (map fst b) = expected_keys"
      by (auto simp: expected_keys_def)
    moreover from b have "distinct (map fst b)"
      using keys_distinct by simp
    moreover from Pair Inr
    have "fst (generate_lesson_content env topic subject grade_level dur w) = Inr b"
      by simp
    ultimately show ?thesis using wc b by (intro disjI2 exI [of _ b]) auto
  qed
qed

text \<open>
  The scenario of a 45-minute lesson on photosynthesis: a conformant response with 650
  words, 7 activities and 9 questions is returned, and 650 is above the bound 420 of the
  MEDIUM tier.
\<close>

theorem C1_photosynthesis_bundle:
  "\<exists>s1 s2 a q s5.
      fst (generate_lesson_content (sample_env with_key (py ''stop'') (lesson_value 650))
             (py ''Photosynthesis'') (py ''Biology'') (py ''Grade 7'') 45 fresh_process) =
        Inr [(py ''description'', PyStr s1), (py ''content'', PyStr s2),
             (py ''activities'', PyList (map PyStr a)),
             (py ''questions'', PyList (map PyStr q)), (py ''summary'', PyStr s5)] \<and>
      420 \<le> int (length (py_split s2)) \<and> length a = 7 \<and> length q = 9"
proof -
  let ?g = "generate_lesson_content (sample_env with_key (py ''stop'') (lesson_value 650))
             (py ''Photosynthesis'') (py ''Biology'') (py ''Grade 7'') 45 fresh_process"
  have r: "fst ?g = Inr (lesson_dict (PyStr (words 650))
                 (PyList (map PyStr (replicate 7 (py ''Draw a leaf'')))))"
    by (subst generate_sample) (simp_all add: py_eq_iff word_bound_params)
  then have "\<nexists>e. fst ?g = Inl e" by simp
  with C1_returned_bundle [of "sample_env with_key (py ''stop'') (lesson_value 650)"
      "py ''Photosynthesis''" "py ''Biology''" "py ''Grade 7''" 45 fresh_process]
  obtain s1 s2 a q s5 where
    b: "fst ?g = Inr [(py ''description'', PyStr s1), (py ''content'', PyStr s2),
             (py ''activities'', PyList (map PyStr a)),
             (py ''questions'', PyList (map PyStr q)), (py ''summary'', PyStr s5)]"
    and wc: "word_bound (min_words (params_by_duration 45)) \<le> int (length (py_split s2))"
    by auto
  from wc have wc': "420 \<le> int (length (py_split s2))"
    by (simp add: word_bound_params)
  from b r have "map PyStr a = map PyStr (replicate 7 (py ''Draw a leaf''))"
    and "map PyStr q = map PyStr (replicate 9 (py ''Why are leaves green?''))"
    by (simp_all add: lesson_dict_def)
  then have "length a = 7" "length q = 9"
    by (metis length_map length_replicate)+
  with b wc' show ?thesis by blast
qed

subsection \<open>Exhausted retries\<close>

text \<open>
  Claim C3. When the client is available and each of the three attempts fails, whatever
  the failure (a parse error, a key-set or type mismatch, truncation, a text that is too
  short, an exception of the provider call), the function calls the provider exactly
  three times, logs each failure and sleeps after it, and then raises one wrapping
  exception that carries the failure of the third attempt. None of the three failures
  leaves the function itself, and there is no fourth call.
\<close>

theorem C3_three_failing_attempts:
  assumes "get_openai_client env w = (Some k, w0)"
    and "req = request_of env topic subject grade_level dur"
    and "attempt_outcome env req 1 = Inl e1"
    and "attempt_outcome env req 2 = Inl e2"
    and "attempt_outcome env req 3 = Inl e3"
  shows "generate_lesson_content env topic subject grade_level dur w =
     (Inl (RetriesFailed (Some e3)),
      w0\<lparr>trace := trace w0 @
         [ApiCall 1 req, ErrorAttempt 1 e1, Sleep 1,
          ApiCall 2 req, ErrorAttempt 2 e2, Sleep 2,
          ApiCall 3 req, ErrorAttempt 3 e3, Sleep 3]\<rparr>)"
proof -
  have "generate_lesson_content env topic subject grade_level dur w =
      attempts env req [1, 2, 3] None w0"
    unfolding generate_lesson_content_def range_1_4 assms(1) assms(2) [symmetric] by simp
  also have "\<dots> = (Inl (RetriesFailed (Some e3)),
      w0\<lparr>trace := trace w0 @
         [ApiCall 1 req, ErrorAttempt 1 e1, Sleep 1,
          ApiCall 2 req, ErrorAttempt 2 e2, Sleep 2,
          ApiCall 3 req, ErrorAttempt 3 e3, Sleep 3]\<rparr>)"
    by (rule attempts_all_fail [OF assms(3,4,5)])
  finally show ?thesis .
qed

text \<open>
  The scenario of a provider whose output is truncated every time: three calls, then the
  wrapping exception with the truncation failure.
\<close>

theorem C3_truncated_every_time:
  "generate_lesson_content (sample_env with_key (py ''length'') (lesson_value 650))
     (py ''Photosynthesis'') (py ''Biology'') (py ''Grade 7'') 45 fresh_process =
   (Inl (RetriesFailed (Some Truncated)),
    \<lparr>client = Client (py ''sk-test''),
     trace =
       [ApiCall 1 (request_of (sample_env with_key (py ''length'') (lesson_value 650))
          (py ''Photosynthesis'') (py ''Biology'') (py ''Grade 7'') 45),
        ErrorAttempt 1 Truncated, Sleep 1,
        ApiCall 2 (request_of (sample_env with_key (py ''length'') (lesson_value 650))
          (py ''Photosynthesis'') (py ''Biology'') (py ''Grade 7'') 45),
        ErrorAttempt 2 Truncated, Sleep 2,
        ApiCall 3 (request_of (sample_env with_key (py ''length'') (lesson_value 650))
          (py ''Photosynthesis'') (py ''Biology'') (py ''Grade 7'') 45),
        ErrorAttempt 3 Truncated, Sleep 3]\<rparr>)"
  using C3_three_failing_attempts [OF client_sample [of "py ''length''" "lesson_value 650"]
      refl truncated_outcome truncated_outcome truncated_outcome,
      where topic = "py ''Photosynthesis''" and subject = "py ''Biology''"
        and grade_level = "py ''Grade 7''" and dur = 45]
  by simp

subsection \<open>Key set\<close>

text \<open>
  Claim C4. A response whose parsed dict does not have exactly the five expected keys (a
  key too many, a key missing, or both) is rejected: \<^verbatim>\<open>_validate_result\<close> raises the
  unexpected-keys error whatever the fields hold, and the attempt fails (with that error,
  unless the truncation or empty-text check has already failed it).
\<close>

theorem C4_key_set_mismatch:
  assumes "create env req a = Returns r"
    and "choices r = c # cs"
    and "loads env (raw_text c) = Some (PyDict d)"
    and "set (map fst d) \<noteq> expected_keys"
  shows "validate_result (PyDict d) =
           Inl (UnexpectedKeys (sort (remdups (filter (\<lambda>k. k \<notin> expected_keys) (map fst d))))) \<and>
         attempt_outcome env req a =
           Inl (if finish_reason c = Some (py ''length'') then Truncated
                else if raw_text c = [] then EmptyResponse
                else UnexpectedKeys
                  (sort (remdups (filter (\<lambda>k. k \<notin> expected_keys) (map fst d)))))"
proof -
  have v: "validate_result (PyDict d) =
      Inl (UnexpectedKeys (sort (remdups (filter (\<lambda>k. k \<notin> expected_keys) (map fst d)))))"
    using assms(4) by simp
  have "attempt_outcome env req a =
      check_response (loads env) (req_params req) (req_duration req) r"
    using assms(1) by (simp add: attempt_outcome_def)
  also have "\<dots> = Inl (if finish_reason c = Some (py ''length'') then Truncated
                else if raw_text c = [] then EmptyResponse
                else UnexpectedKeys
                  (sort (remdups (filter (\<lambda>k. k \<notin> expected_keys) (map fst d)))))"
    unfolding check_response_def using assms(2,3) v
    by (simp add: Let_def and_then_def del: validate_result.simps)
  finally show ?thesis using v by blast
qed

text \<open>
  A result with the extra key \<^verbatim>\<open>notes\<close> and a result without \<^verbatim>\<open>summary\<close> are both
  rejected; for the missing key the list of unexpected keys in the message is empty.
\<close>

theorem C4_extra_and_missing_key:
  "attempt_outcome (sample_env with_key (py ''stop'') (PyDict with_notes))
     (request_of (sample_env with_key (py ''stop'') (PyDict with_notes))
        (py ''Photosynthesis'') (py ''Biology'') (py ''Grade 7'') 45) 1 =
     Inl (UnexpectedKeys [py ''notes'']) \<and>
   attempt_outcome (sample_env with_key (py ''stop'') (PyDict without_summary))
     (request_of (sample_env with_key (py ''stop'') (PyDict without_summary))
        (py ''Photosynthesis'') (py ''Biology'') (py ''Grade 7'') 45) 1 =
     Inl (UnexpectedKeys [])"
proof -
  have "py ''notes'' \<in> set (map fst with_notes)"
    by (simp add: with_notes_def)
  moreover have "py ''notes'' \<notin> expected_keys"
    by (simp add: expected_keys_def py_eq_iff)
  ultimately have 1: "set (map fst with_notes) \<noteq> expected_keys"
    by blast
  have "py ''summary'' \<notin> set (map fst without_summary)"
    by (simp add: without_summary_def lesson_dict_def py_eq_iff)
  moreover have "py ''summary'' \<in> expected_keys"
    by (simp add: expected_keys_def)
  ultimately have 2: "set (map fst without_summary) \<noteq> expected_keys"
    by blast
  have f1: "filter (\<lambda>k. k \<notin> expected_keys) (map fst with_notes) = [py ''notes'']"
    by (simp add: with_notes_def lesson_dict_def expected_keys_def py_eq_iff)
  have f2: "filter (\<lambda>k. k \<notin> expected_keys) (map fst without_summary) = []"
    by (simp add: without_summary_def lesson_dict_def expected_keys_def py_eq_iff)
  show ?thesis
    using C4_key_set_mismatch [OF create_sample choices_sample loads_sample_raw 1]
      C4_key_set_mismatch [OF create_sample choices_sample loads_sample_raw 2]
    by (simp add: f1 f2 finish_reason_sample raw_text_sample_nonempty py_eq_iff)
qed

subsection \<open>Truncation\<close>

text \<open>
  Claim C5. A response whose first choice has the finish reason \<^verbatim>\<open>length\<close> fails the
  attempt with the truncation error, whatever its text is and whatever the text parses
  to.
\<close>

theorem C5_truncated_response:
  assumes "create env req a = Returns r"
    and "choices r = c # cs"
    and "finish_reason c = Some (py ''length'')"
  shows "attempt_outcome env req a = Inl Truncated"
  using assms by (simp add: attempt_outcome_def check_response_def Let_def)

text \<open>
  The same completion, which parses to a valid result of 650 words, is rejected with the
  finish reason \<^verbatim>\<open>length\<close> and accepted with the finish reason \<^verbatim>\<open>stop\<close>.
\<close>

theorem C5_truncated_valid_json:
  "attempt_outcome (sample_env with_key (py ''length'') (lesson_value 650))
     (request_of (sample_env with_key (py ''length'') (lesson_value 650))
        (py ''Photosynthesis'') (py ''Biology'') (py ''Grade 7'') 45) 1 = Inl Truncated \<and>
   (\<exists>b evs. attempt_outcome (sample_env with_key (py ''stop'') (lesson_value 650))
     (request_of (sample_env with_key (py ''stop'') (lesson_value 650))
        (py ''Photosynthesis'') (py ''Biology'') (py ''Grade 7'') 45) 1 = Inr (b, evs))"
proof -
  have "attempt_outcome (sample_env with_key (py ''length'') (lesson_value 650))
     (request_of (sample_env with_key (py ''length'') (lesson_value 650))
        (py ''Photosynthesis'') (py ''Biology'') (py ''Grade 7'') 45) 1 = Inl Truncated"
    by (rule C5_truncated_response [OF create_sample choices_sample finish_reason_sample])
  moreover have "\<exists>b evs. attempt_outcome (sample_env with_key (py ''stop'') (lesson_value 650))
     (request_of (sample_env with_key (py ''stop'') (lesson_value 650))
        (py ''Photosynthesis'') (py ''Biology'') (py ''Grade 7'') 45) 1 = Inr (b, evs)"
    by (subst sample_accepted) (simp_all add: py_eq_iff word_bound_params)
  ultimately show ?thesis by blast
qed

subsection \<open>Minimum length\<close>

text \<open>
  Claim C6. For a response that has passed the checks before it, the content is rejected
  as too short exactly when its number of whitespace-separated words is strictly below 70
  percent of the minimum word count of the duration's tier, and is accepted otherwise.
  For the SHORT tier (minimum 400) fewer than 280 words are rejected and 280 or more
  pass.
\<close>

theorem C6_minimum_length:
  assumes "choices r = c # cs"
    and "finish_reason c \<noteq> Some (py ''length'')"
    and "raw_text c \<noteq> []"
    and "json_loads (raw_text c) = Some (PyDict d)"
    and "validate_result (PyDict d) = Inr ()"
    and "map_of d (py ''content'') = Some (PyStr s)"
  shows
    "(10 * int (length (py_split s)) < 7 * min_words (params_by_duration dur) \<longrightarrow>
        check_response json_loads (params_by_duration dur) dur r =
          Inl (ContentTooShort (length (py_split s)) (min_words (params_by_duration dur)) dur)) \<and>
     (\<not> 10 * int (length (py_split s)) < 7 * min_words (params_by_duration dur) \<longrightarrow>
        (\<exists>b evs. check_response json_loads (params_by_duration dur) dur r = Inr (b, evs))) \<and>
     (dur \<le> 30 \<longrightarrow>
        (length (py_split s) < 280 \<longrightarrow>
           check_response json_loads (params_by_duration dur) dur r =
             Inl (ContentTooShort (length (py_split s)) 400 dur)) \<and>
        (280 \<le> length (py_split s) \<longrightarrow>
           (\<exists>b evs. check_response json_loads (params_by_duration dur) dur r = Inr (b, evs))))"
proof -
  let ?p = "params_by_duration dur"
  let ?n = "length (py_split s)"
  have short: "int ?n < word_bound (min_words ?p) \<Longrightarrow>
      check_response json_loads ?p dur r = Inl (ContentTooShort ?n (min_words ?p) dur)"
    using assms by (simp add: check_response_def Let_def and_then_def)
  have long: "\<not> int ?n < word_bound (min_words ?p) \<Longrightarrow>
      \<exists>b evs. check_response json_loads ?p dur r = Inr (b, evs)"
    using check_response_accept [where L = json_loads and p = ?p and dur = dur, OF assms]
    by blast
  have 1: "10 * int ?n < 7 * min_words ?p \<longrightarrow>
      check_response json_loads ?p dur r = Inl (ContentTooShort ?n (min_words ?p) dur)"
    using short word_bound_seventy_percent by blast
  have 2: "\<not> 10 * int ?n < 7 * min_words ?p \<longrightarrow>
      (\<exists>b evs. check_response json_loads ?p dur r = Inr (b, evs))"
    using long word_bound_seventy_percent by blast
  have 3: "dur \<le> 30 \<longrightarrow>
        (?n < 280 \<longrightarrow> check_response json_loads ?p dur r = Inl (ContentTooShort ?n 400 dur)) \<and>
        (280 \<le> ?n \<longrightarrow> (\<exists>b evs. check_response json_loads ?p dur r = Inr (b, evs)))"
  proof
    assume d: "dur \<le> 30"
    then have wb: "word_bound (min_words ?p) = 280"
      by (simp add: word_bound_params)
    from d have mw: "min_words ?p = 400"
      by (simp add: min_words_cases)
    show "(?n < 280 \<longrightarrow> check_response json_loads ?p dur r = Inl (ContentTooShort ?n 400 dur)) \<and>
        (280 \<le> ?n \<longrightarrow> (\<exists>b evs. check_response json_loads ?p dur r = Inr (b, evs)))"
      using short long unfolding wb unfolding mw by auto
  qed
  from 1 2 3 show ?thesis by blast
qed

text \<open>
  At 30 minutes a text of 279 words is rejected and a text of 280 words is accepted.
\<close>

theorem C6_short_tier_279_280:
  "check_response (sample_loads (lesson_value 279)) (params_by_duration 30) 30
     (sample_response (py ''stop'')) = Inl (ContentTooShort 279 400 30) \<and>
   (\<exists>b evs. check_response (sample_loads (lesson_value 280)) (params_by_duration 30) 30
     (sample_response (py ''stop'')) = Inr (b, evs))"
proof -
  have fr: "finish_reason (sample_choice (py ''stop'')) \<noteq> Some (py ''length'')"
    by (simp add: finish_reason_sample py_eq_iff)
  have ld: "sample_loads (lesson_value n) (raw_text (sample_choice (py ''stop''))) =
      Some (PyDict (lesson_dict (PyStr (words n))
        (PyList (map PyStr (replicate 7 (py ''Draw a leaf''))))))" for n
    by (simp add: sample_loads_raw lesson_value_def)
  have t: "(dur \<le> 30 \<longrightarrow>
        (length (py_split (words n)) < 280 \<longrightarrow>
           check_response (sample_loads (lesson_value n)) (params_by_duration dur) dur
             (sample_response (py ''stop'')) =
             Inl (ContentTooShort (length (py_split (words n))) 400 dur)) \<and>
        (280 \<le> length (py_split (words n)) \<longrightarrow>
           (\<exists>b evs. check_response (sample_loads (lesson_value n)) (params_by_duration dur) dur
             (sample_response (py ''stop'')) = Inr (b, evs))))" for n dur
    using C6_minimum_length [where json_loads = "sample_loads (lesson_value n)"
        and r = "sample_response (py ''stop'')" and c = "sample_choice (py ''stop'')"
        and cs = "[]" and dur = dur and s = "words n"
        and d = "lesson_dict (PyStr (words n))
          (PyList (map PyStr (replicate 7 (py ''Draw a leaf''))))",
        OF choices_sample fr raw_text_sample_nonempty ld validate_lesson_dict
          map_of_lesson_dict(1)]
    by blast
  from t [of 30 279] t [of 30 280] show ?thesis
    by (simp add: length_py_split_words)
qed

subsection \<open>Missing credential\<close>

text \<open>
  Claim C7. When \<^verbatim>\<open>OPENAI_API_KEY\<close> is not in the environment and no client has been
  constructed before in the process, the function raises the configuration error for
  every input. The trace gains at most the warning about the missing key: the provider
  is not called, no attempt is logged and nothing sleeps.
\<close>

theorem C7_missing_credential:
  assumes "getenv env (py ''OPENAI_API_KEY'') = None"
    and "client w = ClientNone \<or> client w = ClientFalse"
  shows "generate_lesson_content env topic subject grade_level dur w =
     (Inl NotConfigured,
      w\<lparr>client := ClientFalse,
        trace := trace w @ (if client w = ClientNone then [WarnNoApiKey] else [])\<rparr>)"
  using assms
  by (auto simp: generate_lesson_content_def get_openai_client_def emit_def)

text \<open>
  A fresh process without the key.
\<close>

theorem C7_no_key_fresh_process:
  "generate_lesson_content (sample_env without_key (py ''stop'') (lesson_value 650))
     (py ''Photosynthesis'') (py ''Biology'') (py ''Grade 7'') 45 fresh_process =
   (Inl NotConfigured, \<lparr>client = ClientFalse, trace = [WarnNoApiKey]\<rparr>)"
proof -
  have 1: "getenv (sample_env without_key (py ''stop'') (lesson_value 650))
      (py ''OPENAI_API_KEY'') = None"
    by (simp add: sample_env_def without_key_def)
  have 2: "client fresh_process = ClientNone \<or> client fresh_process = ClientFalse"
    by (simp add: fresh_process_def)
  show ?thesis
    using C7_missing_credential [OF 1 2] by (simp add: fresh_process_def)
qed

subsection \<open>Field types\<close>

text \<open>
  Claim C8. A response whose parsed dict has the five expected keys is rejected when
  description, content or summary is not a string, or when activities or questions is not
  a list of strings: \<^verbatim>\<open>_validate_result\<close> raises one of its type errors and the attempt
  fails.
\<close>

theorem C8_type_mismatch:
  assumes "create env req a = Returns r"
    and "choices r = c # cs"
    and "loads env (raw_text c) = Some (PyDict d)"
    and "set (map fst d) = expected_keys"
    and "(\<nexists>s. map_of d (py ''description'') = Some (PyStr s)) \<or>
         (\<nexists>s. map_of d (py ''content'') = Some (PyStr s)) \<or>
         (\<nexists>s. map_of d (py ''summary'') = Some (PyStr s)) \<or>
         (\<nexists>ss. map_of d (py ''activities'') = Some (PyList (map PyStr ss))) \<or>
         (\<nexists>ss. map_of d (py ''questions'') = Some (PyList (map PyStr ss)))"
  shows "(\<exists>k. validate_result (PyDict d) = Inl (MustBeString k) \<or>
              validate_result (PyDict d) = Inl (MustBeStrList k)) \<and>
         (\<exists>e. attempt_outcome env req a = Inl e)"
proof -
  have "validate_result (PyDict d) \<noteq> Inr ()"
    using assms(5) unfolding validate_result_Inr by auto
  then obtain e where e: "validate_result (PyDict d) = Inl e"
    by (cases "validate_result (PyDict d)") auto
  from validate_result_Inl_forms [OF assms(4) e]
  have 1: "\<exists>k. validate_result (PyDict d) = Inl (MustBeString k) \<or>
              validate_result (PyDict d) = Inl (MustBeStrList k)"
    using e by auto
  have "attempt_outcome env req a =
      check_response (loads env) (req_params req) (req_duration req) r"
    using assms(1) by (simp add: attempt_outcome_def)
  then have 2: "\<exists>e. attempt_outcome env req a = Inl e"
    using check_response_invalid [where L = "loads env", OF assms(2,3) e] by simp
  from 1 2 show ?thesis by blast
qed

text \<open>
  A number in place of the content, and a list of activities with a number in it.
\<close>

theorem C8_number_for_content_and_mixed_list:
  "attempt_outcome
     (sample_env with_key (py ''stop'') (PyDict (lesson_dict (PyInt 5) (PyList []))))
     (request_of
        (sample_env with_key (py ''stop'') (PyDict (lesson_dict (PyInt 5) (PyList []))))
        (py ''Photosynthesis'') (py ''Biology'') (py ''Grade 7'') 45) 1 =
     Inl (MustBeString (py ''content'')) \<and>
   attempt_outcome
     (sample_env with_key (py ''stop'')
        (PyDict (lesson_dict (PyStr (words 650)) (PyList [PyStr (py ''Draw''), PyInt 3]))))
     (request_of
        (sample_env with_key (py ''stop'')
          (PyDict (lesson_dict (PyStr (words 650)) (PyList [PyStr (py ''Draw''), PyInt 3]))))
        (py ''Photosynthesis'') (py ''Biology'') (py ''Grade 7'') 45) 1 =
     Inl (MustBeStrList (py ''activities''))"
proof -
  let ?d1 = "lesson_dict (PyInt 5) (PyList [])"
  let ?d2 = "lesson_dict (PyStr (words 650)) (PyList [PyStr (py ''Draw''), PyInt 3])"
  have b1: "(\<nexists>s. map_of ?d1 (py ''description'') = Some (PyStr s)) \<or>
         (\<nexists>s. map_of ?d1 (py ''content'') = Some (PyStr s)) \<or>
         (\<nexists>s. map_of ?d1 (py ''summary'') = Some (PyStr s)) \<or>
         (\<nexists>ss. map_of ?d1 (py ''activities'') = Some (PyList (map PyStr ss))) \<or>
         (\<nexists>ss. map_of ?d1 (py ''questions'') = Some (PyList (map PyStr ss)))"
    by (simp add: map_of_lesson_dict)
  have b2: "(\<nexists>s. map_of ?d2 (py ''description'') = Some (PyStr s)) \<or>
         (\<nexists>s. map_of ?d2 (py ''content'') = Some (PyStr s)) \<or>
         (\<nexists>s. map_of ?d2 (py ''summary'') = Some (PyStr s)) \<or>
         (\<nexists>ss. map_of ?d2 (py ''activities'') = Some (PyList (map PyStr ss))) \<or>
         (\<nexists>ss. map_of ?d2 (py ''questions'') = Some (PyList (map PyStr ss)))"
    by (auto simp: map_of_lesson_dict Cons_eq_map_conv)
  have v1: "validate_result (PyDict ?d1) = Inl (MustBeString (py ''content''))"
    unfolding validate_result.simps keys_lesson_dict
    by (simp add: and_then_def must_be_string_def getitem_def map_of_lesson_dict)
  have v2: "validate_result (PyDict ?d2) = Inl (MustBeStrList (py ''activities''))"
    unfolding validate_result.simps keys_lesson_dict
    by (simp add: and_then_def must_be_string_def must_be_str_list_def getitem_def
        map_of_lesson_dict)
  note r1 = C8_type_mismatch [OF create_sample choices_sample loads_sample_raw
      keys_lesson_dict b1]
  note r2 = C8_type_mismatch [OF create_sample choices_sample loads_sample_raw
      keys_lesson_dict b2]
  have a1: "attempt_outcome (sample_env with_key (py ''stop'') (PyDict ?d1)) req 1 =
      Inl (MustBeString (py ''content''))" for req
    by (simp add: attempt_outcome_def create_sample loads_sample
        check_response_invalid [where L = "sample_loads (PyDict ?d1)",
          OF choices_sample sample_loads_raw v1]
        finish_reason_sample raw_text_sample_nonempty py_eq_iff)
  have a2: "attempt_outcome (sample_env with_key (py ''stop'') (PyDict ?d2)) req 1 =
      Inl (MustBeStrList (py ''activities''))" for req
    by (simp add: attempt_outcome_def create_sample loads_sample
        check_response_invalid [where L = "sample_loads (PyDict ?d2)",
          OF choices_sample sample_loads_raw v2]
        finish_reason_sample raw_text_sample_nonempty py_eq_iff)
  from r1 r2 a1 a2 show ?thesis by blast
qed

subsection \<open>Paragraph count\<close>

text \<open>
  Claim C9. A response that passes the rejecting checks is accepted whatever the number
  of its paragraphs: the attempt returns the bundle, the loop returns it without another
  iteration, and a text with fewer than three paragraphs only adds a warning to the
  trace.
\<close>

theorem C9_paragraph_check_is_soft:
  assumes "create env req a = Returns r"
    and "choices r = c # cs"
    and "finish_reason c \<noteq> Some (py ''length'')"
    and "raw_text c \<noteq> []"
    and "loads env (raw_text c) = Some (PyDict d)"
    and "validate_result (PyDict d) = Inr ()"
    and "map_of d (py ''content'') = Some (PyStr s)"
    and "\<not> int (length (py_split s)) < word_bound (min_words (req_params req))"
  shows "\<exists>b. bundle_of d = Inr b \<and>
           attempt_outcome env req a =
             Inr (b, if paragraph_count s < 3
                     then [WarnParagraphs (paragraph_count s) (paragraphs (req_params req))]
                     else []) \<and>
           attempts env req (a # rest) last_error w =
             (Inr b,
              w\<lparr>trace := trace w @ ApiCall a req #
                 (if paragraph_count s < 3
                  then [WarnParagraphs (paragraph_count s) (paragraphs (req_params req))]
                  else [])\<rparr>)"
proof -
  let ?evs = "if paragraph_count s < 3
              then [WarnParagraphs (paragraph_count s) (paragraphs (req_params req))] else []"
  from check_response_accept [where L = "loads env" and p = "req_params req"
      and dur = "req_duration req", OF assms(2-8)]
  obtain b where b: "bundle_of d = Inr b"
    and c: "check_response (loads env) (req_params req) (req_duration req) r = Inr (b, ?evs)"
    by blast
  have o: "attempt_outcome env req a = Inr (b, ?evs)"
    using assms(1) c by (simp add: attempt_outcome_def)
  have "attempts env req (a # rest) last_error w =
      (Inr b, w\<lparr>trace := trace w @ ApiCall a req # ?evs\<rparr>)"
    by (rule attempts_first_ok [OF o])
  with b o show ?thesis by blast
qed

text \<open>
  A text of 650 words in a single paragraph is returned by the first attempt; the trace
  holds the one call and the warning.
\<close>

theorem C9_single_paragraph_accepted:
  "generate_lesson_content (sample_env with_key (py ''stop'') (lesson_value 650))
     (py ''Photosynthesis'') (py ''Biology'') (py ''Grade 7'') 45 fresh_process =
   (Inr (lesson_dict (PyStr (words 650))
           (PyList (map PyStr (replicate 7 (py ''Draw a leaf''))))),
    \<lparr>client = Client (py ''sk-test''),
     trace =
       [ApiCall 1 (request_of (sample_env with_key (py ''stop'') (lesson_value 650))
          (py ''Photosynthesis'') (py ''Biology'') (py ''Grade 7'') 45),
        WarnParagraphs 1 (py ''7-9'')]\<rparr>)"
proof -
  let ?env = "sample_env with_key (py ''stop'') (lesson_value 650)"
  let ?req = "request_of ?env (py ''Photosynthesis'') (py ''Biology'') (py ''Grade 7'') 45"
  let ?d = "lesson_dict (PyStr (words 650))
              (PyList (map PyStr (replicate 7 (py ''Draw a leaf''))))"
  let ?w0 = "\<lparr>client = Client (py ''sk-test''), trace = []\<rparr>"
  have fr: "finish_reason (sample_choice (py ''stop'')) \<noteq> Some (py ''length'')"
    by (simp add: finish_reason_sample py_eq_iff)
  have ld: "loads ?env (raw_text (sample_choice (py ''stop''))) = Some (PyDict ?d)"
    by (simp add: loads_sample_raw lesson_value_def)
  have wc: "\<not> int (length (py_split (words 650))) < word_bound (min_words (req_params ?req))"
    by (simp add: length_py_split_words word_bound_params)
  from C9_paragraph_check_is_soft [where rest = "[2, 3]" and last_error = None and w = ?w0,
      OF create_sample choices_sample fr raw_text_sample_nonempty ld validate_lesson_dict
        map_of_lesson_dict(1) wc]
  obtain b where b: "bundle_of ?d = Inr b"
    and l: "attempts ?env ?req [1, 2, 3] None ?w0 =
      (Inr b, ?w0\<lparr>trace := trace ?w0 @ ApiCall 1 ?req #
         (if paragraph_count (words 650) < 3
          then [WarnParagraphs (paragraph_count (words 650)) (paragraphs (req_params ?req))]
          else [])\<rparr>)"
    by blast
  from b have b': "b = ?d" by (simp add: bundle_of_lesson_dict)
  have "generate_lesson_content ?env (py ''Photosynthesis'') (py ''Biology'')
      (py ''Grade 7'') 45 fresh_process = attempts ?env ?req [1, 2, 3] None ?w0"
    unfolding generate_lesson_content_def range_1_4 client_sample by simp
  also note l
  finally show ?thesis
    unfolding b' by (simp add: paragraph_count_words params_by_duration_def)
qed

subsection \<open>Durations of zero and below\<close>

text \<open>
  Claim C10. A duration of zero or less is not rejected by \<^verbatim>\<open>generate_lesson_content\<close>;
  it runs as any duration up to 30 does. It selects the SHORT parameters and the length
  bound 280, and the only failures of the function are the configuration error and the
  exhaustion of the three attempts. With the client available and a first response that
  passes the checks before the length check, the function returns the bundle when the
  content has at least 280 words (warning about the paragraphs against the SHORT range
  4-5), and with fewer than 280 words it logs the too-short failure against the minimum
  400, sleeps and goes on to the second attempt.
\<close>

theorem C10_nonpositive_duration:
  assumes "dur \<le> 0"
  shows "params_by_duration dur =
           \<lparr>paragraphs = py ''4-5'', min_words = 400, max_tokens = 1600,
            activities_count = py ''5-7'', questions_count = py ''6-10'',
            lesson_type = py ''SHORT''\<rparr> \<and>
         (\<forall>dur'. dur' \<le> 30 \<longrightarrow> params_by_duration dur = params_by_duration dur') \<and>
         req_params (request_of env topic subject grade_level dur) = params_by_duration dur \<and>
         word_bound (min_words (params_by_duration dur)) = 280 \<and>
         (\<forall>e. fst (generate_lesson_content env topic subject grade_level dur w) = Inl e \<longrightarrow>
            e = NotConfigured \<or>
            (\<exists>l. e = RetriesFailed (Some l) \<and>
               attempt_outcome env (request_of env topic subject grade_level dur) 3 = Inl l)) \<and>
         (\<forall>k w0 r c cs d s.
            get_openai_client env w = (Some k, w0) \<and>
            create env (request_of env topic subject grade_level dur) 1 = Returns r \<and>
            choices r = c # cs \<and> finish_reason c \<noteq> Some (py ''length'') \<and>
            raw_text c \<noteq> [] \<and> loads env (raw_text c) = Some (PyDict d) \<and>
            validate_result (PyDict d) = Inr () \<and>
            map_of d (py ''content'') = Some (PyStr s) \<longrightarrow>
            (280 \<le> length (py_split s) \<longrightarrow>
               (\<exists>b. bundle_of d = Inr b \<and>
                  generate_lesson_content env topic subject grade_level dur w =
                    (Inr b,
                     w0\<lparr>trace := trace w0 @
                        ApiCall 1 (request_of env topic subject grade_level dur) #
                        (if paragraph_count s < 3
                         then [WarnParagraphs (paragraph_count s) (py ''4-5'')]
                         else [])\<rparr>))) \<and>
            (length (py_split s) < 280 \<longrightarrow>
               generate_lesson_content env topic subject grade_level dur w =
                 attempts env (request_of env topic subject grade_level dur) [2, 3]
                   (Some (ContentTooShort (length (py_split s)) 400 dur))
                   (w0\<lparr>trace := trace w0 @
                      [ApiCall 1 (request_of env topic subject grade_level dur),
                       ErrorAttempt 1 (ContentTooShort (length (py_split s)) 400 dur),
                       Sleep 1]\<rparr>)))"
proof -
  let ?req = "request_of env topic subject grade_level dur"
  from assms have 1: "params_by_duration dur =
           \<lparr>paragraphs = py ''4-5'', min_words = 400, max_tokens = 1600,
            activities_count = py ''5-7'', questions_count = py ''6-10'',
            lesson_type = py ''SHORT''\<rparr>"
    by (simp add: params_by_duration_def)
  from assms have 2: "\<forall>dur'. dur' \<le> 30 \<longrightarrow> params_by_duration dur = params_by_duration dur'"
    by (simp add: params_by_duration_def)
  from assms have 3: "word_bound (min_words (params_by_duration dur)) = 280"
    by (simp add: word_bound_params)
  from 1 have mw: "min_words (params_by_duration dur) = 400"
    and pp: "paragraphs (params_by_duration dur) = py ''4-5''"
    by simp_all
  have 4: "\<forall>e. fst (generate_lesson_content env topic subject grade_level dur w) = Inl e \<longrightarrow>
            e = NotConfigured \<or>
            (\<exists>l. e = RetriesFailed (Some l) \<and> attempt_outcome env ?req 3 = Inl l)"
    using generate_Inl [of env topic subject grade_level dur w] by blast
  have 5: "\<exists>b. bundle_of d = Inr b \<and>
        generate_lesson_content env topic subject grade_level dur w =
          (Inr b, w0\<lparr>trace := trace w0 @ ApiCall 1 ?req #
              (if paragraph_count s < 3
               then [WarnParagraphs (paragraph_count s) (py ''4-5'')] else [])\<rparr>)"
    if "get_openai_client env w = (Some k, w0)" "create env ?req 1 = Returns r"
      "choices r = c # cs" "finish_reason c \<noteq> Some (py ''length'')" "raw_text c \<noteq> []"
      "loads env (raw_text c) = Some (PyDict d)" "validate_result (PyDict d) = Inr ()"
      "map_of d (py ''content'') = Some (PyStr s)" "280 \<le> length (py_split s)"
    for k w0 r c cs d s
  proof -
    from that(9) have "\<not> int (length (py_split s)) <
        word_bound (min_words (params_by_duration dur))"
      unfolding 3 by simp
    from generate_first_accepted [OF that(1-8) this] show ?thesis
      unfolding pp .
  qed
  have 6: "generate_lesson_content env topic subject grade_level dur w =
        attempts env ?req [2, 3] (Some (ContentTooShort (length (py_split s)) 400 dur))
          (w0\<lparr>trace := trace w0 @
             [ApiCall 1 ?req, ErrorAttempt 1 (ContentTooShort (length (py_split s)) 400 dur),
              Sleep 1]\<rparr>)"
    if "get_openai_client env w = (Some k, w0)" "create env ?req 1 = Returns r"
      "choices r = c # cs" "finish_reason c \<noteq> Some (py ''length'')" "raw_text c \<noteq> []"
      "loads env (raw_text c) = Some (PyDict d)" "validate_result (PyDict d) = Inr ()"
      "map_of d (py ''content'') = Some (PyStr s)" "length (py_split s) < 280"
    for k w0 r c cs d s
  proof -
    from that(9) have "int (length (py_split s)) <
        word_bound (min_words (params_by_duration dur))"
      unfolding 3 by simp
    from generate_first_too_short [OF that(1-8) this] show ?thesis
      unfolding mw .
  qed
  have 7: "req_params ?req = params_by_duration dur"
    by (rule req_params_request_of)
  show ?thesis
    apply (intro conjI)
         apply (rule 1)
        apply (rule 2)
       apply (rule 7)
      apply (rule 3)
     apply (rule 4)
    apply (intro allI impI conjI)
     apply (elim conjE)
     apply (rule 5; assumption)
    apply (elim conjE)
    apply (rule 6; assumption)
    done
qed

text \<open>
  At the duration -15 a text of 280 words is returned by the first attempt, and a text of
  279 words fails all three attempts as too short for the minimum 400.
\<close>

theorem C10_negative_duration_runs:
  "params_by_duration (- 15) = params_by_duration 30 \<and>
   generate_lesson_content (sample_env with_key (py ''stop'') (lesson_value 280))
     (py ''Photosynthesis'') (py ''Biology'') (py ''Grade 7'') (- 15) fresh_process =
   (Inr (lesson_dict (PyStr (words 280))
           (PyList (map PyStr (replicate 7 (py ''Draw a leaf''))))),
    \<lparr>client = Client (py ''sk-test''),
     trace =
       [ApiCall 1 (request_of (sample_env with_key (py ''stop'') (lesson_value 280))
          (py ''Photosynthesis'') (py ''Biology'') (py ''Grade 7'') (- 15)),
        WarnParagraphs 1 (py ''4-5'')]\<rparr>) \<and>
   generate_lesson_content (sample_env with_key (py ''stop'') (lesson_value 279))
     (py ''Photosynthesis'') (py ''Biology'') (py ''Grade 7'') (- 15) fresh_process =
   (Inl (RetriesFailed (Some (ContentTooShort 279 400 (- 15)))),
    \<lparr>client = Client (py ''sk-test''),
     trace =
       [ApiCall 1 (request_of (sample_env with_key (py ''stop'') (lesson_value 279))
          (py ''Photosynthesis'') (py ''Biology'') (py ''Grade 7'') (- 15)),
        ErrorAttempt 1 (ContentTooShort 279 400 (- 15)), Sleep 1,
        ApiCall 2 (request_of (sample_env with_key (py ''stop'') (lesson_value 279))
          (py ''Photosynthesis'') (py ''Biology'') (py ''Grade 7'') (- 15)),
        ErrorAttempt 2 (ContentTooShort 279 400 (- 15)), Sleep 2,
        ApiCall 3 (request_of (sample_env with_key (py ''stop'') (lesson_value 279))
          (py ''Photosynthesis'') (py ''Biology'') (py ''Grade 7'') (- 15)),
        ErrorAttempt 3 (ContentTooShort 279 400 (- 15)), Sleep 3]\<rparr>)"
proof -
  let ?w0 = "\<lparr>client = Client (py ''sk-test''), trace = []\<rparr>"
  let ?d = "\<lambda>n. lesson_dict (PyStr (words n))
              (PyList (map PyStr (replicate 7 (py ''Draw a leaf''))))"
  have le: "(- 15::int) \<le> 0" by simp
  have t: "(280 \<le> length (py_split (words n)) \<longrightarrow>
       (\<exists>b. bundle_of (?d n) = Inr b \<and>
          generate_lesson_content (sample_env with_key (py ''stop'') (lesson_value n))
            (py ''Photosynthesis'') (py ''Biology'') (py ''Grade 7'') (- 15) fresh_process =
            (Inr b,
             ?w0\<lparr>trace := trace ?w0 @
                ApiCall 1 (request_of (sample_env with_key (py ''stop'') (lesson_value n))
                  (py ''Photosynthesis'') (py ''Biology'') (py ''Grade 7'') (- 15)) #
                (if paragraph_count (words n) < 3
                 then [WarnParagraphs (paragraph_count (words n)) (py ''4-5'')]
                 else [])\<rparr>))) \<and>
     (length (py_split (words n)) < 280 \<longrightarrow>
        generate_lesson_content (sample_env with_key (py ''stop'') (lesson_value n))
          (py ''Photosynthesis'') (py ''Biology'') (py ''Grade 7'') (- 15) fresh_process =
          attempts (sample_env with_key (py ''stop'') (lesson_value n))
            (request_of (sample_env with_key (py ''stop'') (lesson_value n))
               (py ''Photosynthesis'') (py ''Biology'') (py ''Grade 7'') (- 15)) [2, 3]
            (Some (ContentTooShort (length (py_split (words n))) 400 (- 15)))
            (?w0\<lparr>trace := trace ?w0 @
               [ApiCall 1 (request_of (sample_env with_key (py ''stop'') (lesson_value n))
                  (py ''Photosynthesis'') (py ''Biology'') (py ''Grade 7'') (- 15)),
                ErrorAttempt 1 (ContentTooShort (length (py_split (words n))) 400 (- 15)),
                Sleep 1]\<rparr>))" for n
    by (rule C10_nonpositive_duration [OF le, THEN conjunct2, THEN conjunct2, THEN conjunct2,
          THEN conjunct2, THEN conjunct2, rule_format,
          where s = "words n" and d = "?d n" and c = "sample_choice (py ''stop'')"
            and cs = "[]" and r = "sample_response (py ''stop'')" and k = "py ''sk-test''"])
      (intro conjI, rule client_sample, rule create_sample, rule choices_sample,
        simp add: finish_reason_sample py_eq_iff, rule raw_text_sample_nonempty,
        simp only: loads_sample_raw lesson_value_def, rule validate_lesson_dict,
        rule map_of_lesson_dict)
  have a: "\<forall>dur'. dur' \<le> 30 \<longrightarrow> params_by_duration (- 15) = params_by_duration dur'"
    using C10_nonpositive_duration [OF le] by blast
  have 1: "params_by_duration (- 15) = params_by_duration 30"
    by (rule a [rule_format]) simp
  from t [of 280] have 2:
    "generate_lesson_content (sample_env with_key (py ''stop'') (lesson_value 280))
       (py ''Photosynthesis'') (py ''Biology'') (py ''Grade 7'') (- 15) fresh_process =
     (Inr (?d 280),
      \<lparr>client = Client (py ''sk-test''),
       trace =
         [ApiCall 1 (request_of (sample_env with_key (py ''stop'') (lesson_value 280))
            (py ''Photosynthesis'') (py ''Biology'') (py ''Grade 7'') (- 15)),
          WarnParagraphs 1 (py ''4-5'')]\<rparr>)"
    by (simp add: length_py_split_words bundle_of_lesson_dict paragraph_count_words)
  let ?env = "sample_env with_key (py ''stop'') (lesson_value 279)"
  let ?req = "request_of ?env (py ''Photosynthesis'') (py ''Biology'') (py ''Grade 7'') (- 15)"
  have o: "attempt_outcome ?env ?req a = Inl (ContentTooShort 279 400 (- 15))" for a
    using sample_too_short [of "py ''stop''" 279 ?req with_key a]
    by (simp add: py_eq_iff min_words_cases word_bound_400)
  from t [of 279] have
    "generate_lesson_content ?env (py ''Photosynthesis'') (py ''Biology'') (py ''Grade 7'')
       (- 15) fresh_process =
     attempts ?env ?req [2, 3] (Some (ContentTooShort 279 400 (- 15)))
       (?w0\<lparr>trace := trace ?w0 @
          [ApiCall 1 ?req, ErrorAttempt 1 (ContentTooShort 279 400 (- 15)), Sleep 1]\<rparr>)"
    by (simp add: length_py_split_words)
  then have 3:
    "generate_lesson_content ?env (py ''Photosynthesis'') (py ''Biology'') (py ''Grade 7'')
       (- 15) fresh_process =
     (Inl (RetriesFailed (Some (ContentTooShort 279 400 (- 15)))),
      \<lparr>client = Client (py ''sk-test''),
       trace =
         [ApiCall 1 ?req, ErrorAttempt 1 (ContentTooShort 279 400 (- 15)), Sleep 1,
          ApiCall 2 ?req, ErrorAttempt 2 (ContentTooShort 279 400 (- 15)), Sleep 2,
          ApiCall 3 ?req, ErrorAttempt 3 (ContentTooShort 279 400 (- 15)), Sleep 3]\<rparr>)"
    by (simp add: attempt_Inl [OF o] emit_def)
  from 1 2 3 show ?thesis by blast
qed

end
